theory Spec2Isabelle
  imports Complex_Main "HOL-Library.Sublist"
begin

section \<open>Python values shared by the grading engine\<close>

text \<open>
  A Python \<^verbatim>\<open>str\<close> is modelled as a list of code points below 256 (\<^typ>\<open>string\<close>);
  the character classes below are Python's own on that range. A Python \<^verbatim>\<open>float\<close> is
  modelled as an exact rational, so that \<^verbatim>\<open>round(x, 2)\<close> is rounding to hundredths with
  ties to the even neighbour.
\<close>

datatype py_error =
    AttributeError string
  | KeyError string
  | IndexError string
  | TypeError string
  | ReError string
  | OverflowError string
  | TimeoutExpired
  | OSError string

fun str_of_error :: "py_error \<Rightarrow> string" where
  "str_of_error (AttributeError m) = m"
| "str_of_error (KeyError m) = m"
| "str_of_error (IndexError m) = m"
| "str_of_error (TypeError m) = m"
| "str_of_error (ReError m) = m"
| "str_of_error (OverflowError m) = m"
| "str_of_error TimeoutExpired = ''Command timed out''"
| "str_of_error (OSError m) = m"

definition isspace :: "char \<Rightarrow> bool" where
  "isspace c =
     (let n = (of_char c :: nat)
      in (9 \<le> n \<and> n \<le> 13) \<or> (28 \<le> n \<and> n \<le> 32) \<or> n = 133 \<or> n = 160)"

definition lstrip :: "string \<Rightarrow> string" where
  "lstrip s = dropWhile isspace s"

definition rstrip :: "string \<Rightarrow> string" where
  "rstrip s = rev (dropWhile isspace (rev s))"

definition strip :: "string \<Rightarrow> string" where
  "strip s = rstrip (lstrip s)"

definition or_empty :: "string option \<Rightarrow> string" where
  "or_empty s = (case s of None \<Rightarrow> [] | Some t \<Rightarrow> t)"


text \<open>A name in single quotes, as Python prints it in its messages.\<close>

definition quote :: "string \<Rightarrow> string" where
  "quote s = CHR 0x27 # s @ [CHR 0x27]"

text \<open>\<^verbatim>\<open>str.lower\<close>, the operator \<^verbatim>\<open>in\<close> on strings, \<^verbatim>\<open>str.split()\<close> and \<^verbatim>\<open>str.split(sep)\<close>.\<close>

definition lower_char :: "char \<Rightarrow> char" where
  "lower_char c =
     (let n = (of_char c :: nat)
      in if (65 \<le> n \<and> n \<le> 90) \<or> (192 \<le> n \<and> n \<le> 222 \<and> n \<noteq> 215)
         then char_of (n + 32) else c)"

definition lower :: "string \<Rightarrow> string" where
  "lower s = map lower_char s"

fun contains :: "string \<Rightarrow> string \<Rightarrow> bool" where
  "contains sub [] = (sub = [])"
| "contains sub (c # cs) = (prefix sub (c # cs) \<or> contains sub cs)"

function split_ws :: "string \<Rightarrow> string list" where
  "split_ws [] = []"
| "split_ws (c # cs) =
     (if isspace c then split_ws cs
      else (c # takeWhile (\<lambda>x. \<not> isspace x) cs) # split_ws (dropWhile (\<lambda>x. \<not> isspace x) cs))"
  by pat_completeness auto
termination
  by (relation "measure length") (auto simp: le_imp_less_Suc length_dropWhile_le)

fun split_go :: "string \<Rightarrow> nat \<Rightarrow> string \<Rightarrow> string \<Rightarrow> string list" where
  "split_go sep k [] cur = [rev cur]"
| "split_go sep k (c # cs) cur =
     (if 0 < k then split_go sep (k - 1) cs cur
      else if prefix sep (c # cs) then rev cur # split_go sep (length sep - 1) cs []
      else split_go sep 0 cs (c # cur))"

definition split_on :: "string \<Rightarrow> string \<Rightarrow> string list" where
  "split_on sep s = split_go sep 0 s []"

text \<open>ASCII digits and the integer they spell, \<^verbatim>\<open>int(digits)\<close>.\<close>

definition isdigit_ascii :: "char \<Rightarrow> bool" where
  "isdigit_ascii c = (let n = (of_char c :: nat) in 48 \<le> n \<and> n \<le> 57)"

definition digit_value :: "char \<Rightarrow> int" where
  "digit_value c = of_char c - 48"

definition int_of_digits :: "string \<Rightarrow> int" where
  "int_of_digits ds = foldl (\<lambda>n c. 10 * n + digit_value c) 0 ds"

section \<open>The regular expression library\<close>

text \<open>
  The \<^verbatim>\<open>re\<close> module is CPython's, not the repository's. Its matcher is a parameter of
  the model (\<open>re_lib\<close>: flags, pattern and subject to a result or an exception). Two
  checks of its parser matter here and are modelled from CPython's \<^verbatim>\<open>re/_parser.py\<close> on
  a fragment of the pattern language: literal characters, the dot, the escapes
  \<^verbatim>\<open>\s \w \d \S \W \D\<close>, escaped punctuation and character sets of plain members, each
  followed by at most one of \<^verbatim>\<open>* + ?\<close>. No group can be open in the fragment, so there
  a backreference \<^verbatim>\<open>\1\<close> to \<^verbatim>\<open>\9\<close> raises \<^verbatim>\<open>re.error\<close> (invalid group reference), and
  a repetition \<^verbatim>\<open>{lo}\<close> or \<^verbatim>\<open>{lo,hi}\<close> with a count of \<^verbatim>\<open>MAXREPEAT\<close> or more raises
  \<^verbatim>\<open>OverflowError\<close>. The scan gives up, and leaves the pattern to the parameter, as soon
  as it meets anything outside the fragment.
\<close>

definition MAXREPEAT :: int where
  "MAXREPEAT = 4294967295"

text \<open>What follows an opening brace is a repetition with a count that is too large.\<close>

definition repeat_overflow :: "string \<Rightarrow> bool" where
  "repeat_overflow rest =
     (let lo = takeWhile isdigit_ascii rest;
          r1 = dropWhile isdigit_ascii rest;
          comma = (take 1 r1 = '','');
          hi = (if comma then takeWhile isdigit_ascii (drop 1 r1) else lo);
          r2 = (if comma then dropWhile isdigit_ascii (drop 1 r1) else r1)
      in take 1 rest \<noteq> ''}'' \<and> take 1 r2 = ''}''
         \<and> ((lo \<noteq> [] \<and> MAXREPEAT \<le> int_of_digits lo)
            \<or> (hi \<noteq> [] \<and> MAXREPEAT \<le> int_of_digits hi)))"

text \<open>
  The scan. \<open>Atom\<close>: an item is expected; \<open>Quant\<close>: an item has just ended and may be
  repeated; the other three states are inside a character set, before and after its
  first member. \<^const>\<open>None\<close> is no fault found, or given up.
\<close>

datatype sre_state = Atom | Quant | SetStart | SetFirst | SetRest

fun sre_scan :: "sre_state \<Rightarrow> string \<Rightarrow> py_error option" where
  "sre_scan st [] = None"
| "sre_scan SetStart (c # cs) =
     (if c = CHR ''^'' then sre_scan SetFirst cs
      else if c \<in> set (CHR 0x5C # ''[]-'') then None
      else sre_scan SetRest cs)"
| "sre_scan SetFirst (c # cs) =
     (if c \<in> set (CHR 0x5C # ''[]-^'') then None else sre_scan SetRest cs)"
| "sre_scan SetRest (c # cs) =
     (if c = CHR '']'' then sre_scan Quant cs
      else if c \<in> set (CHR 0x5C # ''[-'') then None
      else sre_scan SetRest cs)"
| "sre_scan st (c # cs) =
     (if c = CHR 0x5C then
        (case cs of
           [] \<Rightarrow> None
         | d # ds \<Rightarrow>
             if d \<in> set ''123456789'' then
               (if (case ds of [] \<Rightarrow> True | e # es \<Rightarrow> \<not> isdigit_ascii e)
                then Some (ReError (''invalid group reference '' @ [d]))
                else None)
             else if d \<in> set ''swdSWD'' \<or> d \<in> set (CHR 0x5C # ''.^$*+?{}[]()|'')
               then sre_scan Quant ds
             else None)
      else if c = CHR ''['' then sre_scan SetStart cs
      else if c = CHR ''.'' then sre_scan Quant cs
      else if c \<in> set ''*+?'' then (if st = Quant then sre_scan Atom cs else None)
      else if c = CHR ''{'' then
        (if st = Quant \<and> repeat_overflow cs
         then Some (OverflowError ''the repetition number is too large'')
         else None)
      else if c \<in> set ''()|^$]}'' then None
      else sre_scan Quant cs)"

text \<open>
  A pattern that ends in a backslash is left to the parameter as well: the tokenizer
  reads one token ahead and may object to it first.
\<close>

definition sre_parse_fault :: "string \<Rightarrow> py_error option" where
  "sre_parse_fault pat =
     (if pat \<noteq> [] \<and> last pat = CHR 0x5C then None else sre_scan Atom pat)"

text \<open>The matcher, and \<^verbatim>\<open>re.fullmatch\<close> and \<^verbatim>\<open>re.search\<close> on top of the parser's checks.\<close>

datatype re_flag = DOTALL | MULTILINE

record re_lib =
  lib_fullmatch :: "re_flag list \<Rightarrow> string \<Rightarrow> string \<Rightarrow> py_error + bool"
  lib_search :: "re_flag list \<Rightarrow> string \<Rightarrow> string \<Rightarrow> py_error + bool"

definition re_fullmatch :: "re_lib \<Rightarrow> re_flag list \<Rightarrow> string \<Rightarrow> string \<Rightarrow> py_error + bool" where
  "re_fullmatch lib flags pat s =
     (case sre_parse_fault pat of Some e \<Rightarrow> Inl e | None \<Rightarrow> lib_fullmatch lib flags pat s)"

definition re_search :: "re_lib \<Rightarrow> re_flag list \<Rightarrow> string \<Rightarrow> string \<Rightarrow> py_error + bool" where
  "re_search lib flags pat s =
     (case sre_parse_fault pat of Some e \<Rightarrow> Inl e | None \<Rightarrow> lib_search lib flags pat s)"

section \<open>Output judge: \<^verbatim>\<open>problem_Normalization.py\<close>\<close>

text \<open>
  \<^verbatim>\<open>normalize_space\<close> is four passes and a strip. Each \<^verbatim>\<open>re.sub\<close> is written as the
  left-to-right scan it performs: at each position the pattern either matches (its
  whitespace runs taken greedily) and the scan resumes after the match, or the character
  is copied and the scan moves one position on.
\<close>

text \<open>\<^verbatim>\<open>text.replace('\n', ' ')\<close>\<close>

definition replace_newline :: "string \<Rightarrow> string" where
  "replace_newline s = map (\<lambda>c. if c = CHR 0x0A then CHR '' '' else c) s"

text \<open>\<^verbatim>\<open>re.sub(r'\s+', ' ', text)\<close>\<close>

function sub_spaces :: "string \<Rightarrow> string" where
  "sub_spaces [] = []"
| "sub_spaces (c # cs) =
     (if isspace c then CHR '' '' # sub_spaces (dropWhile isspace cs)
      else c # sub_spaces cs)"
  by pat_completeness auto
termination
  by (relation "measure length") (auto simp: le_imp_less_Suc length_dropWhile_le)

text \<open>\<^verbatim>\<open>re.sub(r'\s*([\[\]\(\)\{\}])\s*', r'\1', text)\<close>\<close>

definition isbracket :: "char \<Rightarrow> bool" where
  "isbracket c = (c \<in> set ''[](){}'')"

function sub_brackets :: "string \<Rightarrow> string" where
  "sub_brackets [] = []"
| "sub_brackets (c # cs) =
     (case dropWhile isspace (c # cs) of
        [] \<Rightarrow> c # sub_brackets cs
      | b # rest \<Rightarrow>
          if isbracket b then b # sub_brackets (dropWhile isspace rest)
          else c # sub_brackets cs)"
  by pat_completeness auto
termination
proof (relation "measure length", goal_cases)
  case 1
  show ?case by simp
next
  case (2 c cs)
  show ?case by simp
next
  case (3 c cs b rest)
  have "length (dropWhile isspace rest) \<le> length rest"
    by (rule length_dropWhile_le)
  moreover have "length (b # rest) \<le> length (c # cs)"
    unfolding 3(1) [symmetric] by (rule length_dropWhile_le)
  ultimately show ?case by simp
next
  case (4 c cs b rest)
  show ?case by simp
qed

text \<open>\<^verbatim>\<open>re.sub(r',\s*', ',', text)\<close>\<close>

function sub_commas :: "string \<Rightarrow> string" where
  "sub_commas [] = []"
| "sub_commas (c # cs) =
     (if c = CHR '','' then c # sub_commas (dropWhile isspace cs)
      else c # sub_commas cs)"
  by pat_completeness auto
termination
  by (relation "measure length") (auto simp: le_imp_less_Suc length_dropWhile_le)

definition normalize_space :: "string option \<Rightarrow> string" where
  "normalize_space text =
     strip (sub_commas (sub_brackets (sub_spaces (replace_newline (or_empty text)))))"

text \<open>
  The comparison functions. \<^verbatim>\<open>RatingMode\<close> is a \<^verbatim>\<open>str\<close> enumeration, compared by value,
  so a rating mode is its string. In \<^verbatim>\<open>compare_regex\<close> the handler catches \<^verbatim>\<open>re.error\<close>
  and nothing else.
\<close>

definition compare_hard :: "string option \<Rightarrow> string option \<Rightarrow> bool" where
  "compare_hard output expected = (strip (or_empty output) = strip (or_empty expected))"

definition compare_space :: "string option \<Rightarrow> string option \<Rightarrow> bool" where
  "compare_space output expected = (normalize_space output = normalize_space expected)"

definition compare_regex :: "re_lib \<Rightarrow> string option \<Rightarrow> string option \<Rightarrow> py_error + bool" where
  "compare_regex lib output expected =
     (case re_fullmatch lib [DOTALL, MULTILINE] (strip (or_empty expected)) (strip (or_empty output)) of
        Inr m \<Rightarrow> Inr m
      | Inl (ReError msg) \<Rightarrow> Inr False
      | Inl e \<Rightarrow> Inl e)"

definition compare :: "re_lib \<Rightarrow> string option \<Rightarrow> string option \<Rightarrow> string \<Rightarrow> py_error + bool" where
  "compare lib output expected rating_mode =
     (if rating_mode = ''hard'' then Inr (compare_hard output expected)
      else if rating_mode = ''space'' then Inr (compare_space output expected)
      else if rating_mode = ''regex'' then compare_regex lib output expected
      else if rating_mode = ''none'' then Inr True
      else Inr False)"

section \<open>Score aggregator: \<^verbatim>\<open>condition_utils.py\<close> and the tail of \<^verbatim>\<open>ai_feedback.py\<close>\<close>

definition round_half_even :: "rat \<Rightarrow> int" where
  "round_half_even x =
     (let f = \<lfloor>x\<rfloor>; d = x - of_int f
      in if d < 1 / 2 then f else if 1 / 2 < d then f + 1
         else if even f then f else f + 1)"

definition round2 :: "rat \<Rightarrow> rat" where
  "round2 x = of_int (round_half_even (x * 100)) / 100"

text \<open>
  A condition item is a dictionary; a key that may be absent is an option. Keys the
  functions below never read (condition, description, feedback, check_type) are carried
  along unchanged by the source and are left out.
\<close>

record cond_item =
  item_is_required :: "bool option"
  item_passed :: "bool option"
  item_weight :: "rat option"
  item_score :: "rat option"

text \<open>\<^verbatim>\<open>it.get("passed")\<close> in a condition: an absent key is \<^verbatim>\<open>None\<close>, which is falsy.\<close>

definition get_passed :: "cond_item \<Rightarrow> bool" where
  "get_passed it = (item_passed it = Some True)"

text \<open>\<^verbatim>\<open>float(max(0.0, it.get("weight", 1.0)))\<close>\<close>

definition get_weight :: "cond_item \<Rightarrow> rat" where
  "get_weight it = max 0 (case item_weight it of None \<Rightarrow> 1 | Some w \<Rightarrow> w)"

text \<open>\<^verbatim>\<open>float(it.get("score", 0.0))\<close>\<close>

definition get_score :: "cond_item \<Rightarrow> rat" where
  "get_score it = (case item_score it of None \<Rightarrow> 0 | Some s \<Rightarrow> s)"

text \<open>The scoring loop of \<^verbatim>\<open>distribute_condition_scores\<close>, with its two accumulators.\<close>

fun score_loop :: "rat \<Rightarrow> cond_item list \<Rightarrow> rat \<Rightarrow> cond_item list \<Rightarrow> rat \<times> cond_item list" where
  "score_loop per_unit [] earned_sum out = (earned_sum, out)"
| "score_loop per_unit (it # items) earned_sum out =
     (let w = get_weight it;
          allocated = round2 (per_unit * w);
          got = round2 (if get_passed it then allocated else 0)
      in score_loop per_unit items (earned_sum + got) (out @ [it\<lparr>item_score := Some got\<rparr>]))"

text \<open>
  The correction loop: the first passing item takes the gap; \<^const>\<open>None\<close> when the loop
  ends without reaching \<^verbatim>\<open>break\<close>.
\<close>

fun add_gap :: "rat \<Rightarrow> cond_item list \<Rightarrow> cond_item list option" where
  "add_gap gap [] = None"
| "add_gap gap (it # out) =
     (if get_passed it
      then Some (it\<lparr>item_score := Some (round2 (get_score it + gap))\<rparr> # out)
      else map_option ((#) it) (add_gap gap out))"

definition distribute_condition_scores :: "cond_item list \<Rightarrow> rat \<Rightarrow> cond_item list \<times> rat" where
  "distribute_condition_scores items total_points =
     (if items = [] then ([], 0)
      else
        let s = sum_list (map get_weight items);
            weights_sum = (if s = 0 then 1 else s);
            per_unit = total_points / weights_sum;
            (earned_sum, out) = score_loop per_unit items 0 [];
            gap = round2 (total_points - earned_sum)
        in if \<bar>gap\<bar> \<ge> 1 / 100
           then (case add_gap gap out of
                   Some out' \<Rightarrow> (out', round2 (earned_sum + gap))
                 | None \<Rightarrow> (out, earned_sum))
           else (out, earned_sum))"

text \<open>The allocation of one item, as the loop computes it before looking at \<^verbatim>\<open>passed\<close>.\<close>

definition allocations :: "cond_item list \<Rightarrow> rat \<Rightarrow> rat list" where
  "allocations items total_points =
     (let s = sum_list (map get_weight items);
          weights_sum = (if s = 0 then 1 else s);
          per_unit = total_points / weights_sum
      in map (\<lambda>it. round2 (per_unit * get_weight it)) items)"

text \<open>\<^verbatim>\<open>bool(it.get("is_required", True))\<close> and \<^verbatim>\<open>bool(it.get("passed", False))\<close>\<close>

definition required_of :: "cond_item \<Rightarrow> bool" where
  "required_of it = (case item_is_required it of None \<Rightarrow> True | Some b \<Rightarrow> b)"

definition passed_of :: "cond_item \<Rightarrow> bool" where
  "passed_of it = (case item_passed it of None \<Rightarrow> False | Some b \<Rightarrow> b)"

record grading_outcome =
  percent :: rat
  score :: rat
  ai_feedback :: string
  graded_by :: string
  condition_results :: "cond_item list"
  condition_points_earned :: rat
  all_status :: string

text \<open>
  Steps 2 and 3 of \<^verbatim>\<open>generate_for_problem_type\<close>. Step 1 (the percentage of the problem
  type and the text of the language model) enters as its three results.
\<close>

definition generate_for_problem_type ::
  "rat \<Rightarrow> string \<Rightarrow> string \<Rightarrow> rat \<Rightarrow> cond_item list option \<Rightarrow> grading_outcome" where
  "generate_for_problem_type pct ai_fb grader max_points condition_check_results =
     (let cond_results = (case condition_check_results of None \<Rightarrow> [] | Some cs \<Rightarrow> cs);
          sc = round2 (pct / 100 * max_points);
          cond_sum = round2 (sum_list (map get_score cond_results));
          all_required_ok =
            list_all (\<lambda>it. \<not> required_of it \<or> passed_of it) cond_results
      in \<lparr>percent = pct, score = sc, ai_feedback = ai_fb, graded_by = grader,
          condition_results = cond_results, condition_points_earned = cond_sum,
          all_status = (if all_required_ok then ''success'' else ''fail'')\<rparr>)"

section \<open>Condition checker: \<^verbatim>\<open>problem_condition_checker.py\<close>\<close>

text \<open>
  The feedback texts are Korean sentences; each constructor of \<open>feedback\<close> stands for one
  of them, with the values the source interpolates.
\<close>

datatype check_type = code_analysis | output_validation | performance | gpt_check

record problem_condition_check =
  condition :: string
  is_required :: bool
  check_type :: check_type
  description :: "string option"

datatype feedback =
    FbForLoop bool
  | FbWhileLoop bool
  | FbFunction bool
  | FbRecursion bool
  | FbLinearTime bool
  | FbConstantTime bool
  | FbComplexityUnknown
  | FbKeywords string bool
  | FbExactMatch bool
  | FbContains string bool
  | FbArrayFormat bool
  | FbNumberFormat bool
  | FbFormatUnknown
  | FbOutputUnknown
  | FbTimeLimit rat rat bool
  | FbPerformanceUnknown
  | FbUnverifiable

record condition_check_result =
  res_condition :: string
  res_is_required :: bool
  res_check_type :: check_type
  res_description :: "string option"
  res_passed :: bool
  res_feedback :: feedback

text \<open>The result record of a condition: its four fields, the verdict and the feedback.\<close>

definition ConditionCheckResult ::
  "problem_condition_check \<Rightarrow> bool \<Rightarrow> feedback \<Rightarrow> condition_check_result" where
  "ConditionCheckResult c p fb =
     \<lparr>res_condition = condition c, res_is_required = is_required c,
      res_check_type = check_type c, res_description = description c,
      res_passed = p, res_feedback = fb\<rparr>"

text \<open>
  The pattern of the recursion check,
  \<^verbatim>\<open>def\s+\w+\s*\([^)]*\)\s*:.*\1\s*\(\<close>; the code point 0x5C is the backslash.
\<close>

definition recursion_pattern :: string where
  "recursion_pattern =
     ''def'' @ CHR 0x5C # ''s+'' @ CHR 0x5C # ''w+'' @ CHR 0x5C # ''s*'' @ CHR 0x5C # ''([^)]*''
       @ CHR 0x5C # '')'' @ CHR 0x5C # ''s*:.*'' @ CHR 0x5C # ''1'' @ CHR 0x5C # ''s*'' @ CHR 0x5C # ''(''"

text \<open>\<^verbatim>\<open>check_code_analysis_condition\<close>, branch by branch.\<close>

definition check_code_analysis_condition ::
  "re_lib \<Rightarrow> problem_condition_check \<Rightarrow> string \<Rightarrow> py_error + condition_check_result" where
  "check_code_analysis_condition lib c code =
     (let condition_text = lower (condition c);
          code_lower = lower code
      in if contains ''for loop'' condition_text then
           (let passed = contains ''for '' code_lower
            in Inr (ConditionCheckResult c passed (FbForLoop passed)))
         else if contains ''while loop'' condition_text then
           (let passed = contains ''while '' code_lower
            in Inr (ConditionCheckResult c passed (FbWhileLoop passed)))
         else if contains ''function'' condition_text then
           (let passed = (contains ''def '' code_lower \<or> contains ''function'' code_lower)
            in Inr (ConditionCheckResult c passed (FbFunction passed)))
         else if contains ''recursion'' condition_text then
           (case re_search lib [DOTALL] recursion_pattern code of
              Inl e \<Rightarrow> Inl e
            | Inr passed \<Rightarrow> Inr (ConditionCheckResult c passed (FbRecursion passed)))
         else if contains ''time complexity'' condition_text then
           (if contains ''o(n)'' condition_text then
              (let passed = (contains ''for '' code_lower \<and> contains ''in '' code_lower)
               in Inr (ConditionCheckResult c passed (FbLinearTime passed)))
            else if contains ''o(1)'' condition_text then
              (let passed = (\<not> contains ''for '' code_lower \<and> \<not> contains ''while '' code_lower)
               in Inr (ConditionCheckResult c passed (FbConstantTime passed)))
            else Inr (ConditionCheckResult c True FbComplexityUnknown))
         else
           (let keywords = split_ws condition_text;
                passed = list_all (\<lambda>keyword. contains keyword code_lower) keywords
            in Inr (ConditionCheckResult c passed (FbKeywords (condition c) passed))))"

text \<open>
  \<^verbatim>\<open>re.match(r'^\[.*\]$', s)\<close> without flags: an opening bracket, characters other than
  the newline, a closing bracket, at the end or before a final newline.
\<close>

definition match_array :: "string \<Rightarrow> bool" where
  "match_array s =
     (let t = (if s \<noteq> [] \<and> last s = CHR 0x0A then butlast s else s)
      in 2 \<le> length t \<and> hd t = CHR ''['' \<and> last t = CHR '']''
         \<and> CHR 0x0A \<notin> set (butlast (tl t)))"

text \<open>\<^verbatim>\<open>str.isdigit\<close>: below 256 the ASCII digits and the superscripts two, three, one.\<close>

definition isdigit_char :: "char \<Rightarrow> bool" where
  "isdigit_char c =
     (let n = (of_char c :: nat) in (48 \<le> n \<and> n \<le> 57) \<or> n = 178 \<or> n = 179 \<or> n = 185)"

definition isdigit :: "string \<Rightarrow> bool" where
  "isdigit s = (s \<noteq> [] \<and> list_all isdigit_char s)"

text \<open>\<^verbatim>\<open>check_output_validation_condition\<close>.\<close>

definition check_output_validation_condition ::
  "problem_condition_check \<Rightarrow> string \<Rightarrow> string \<Rightarrow> condition_check_result" where
  "check_output_validation_condition c output expected =
     (let condition_text = lower (condition c)
      in if contains ''exact match'' condition_text then
           (let passed = (strip output = strip expected)
            in ConditionCheckResult c passed (FbExactMatch passed))
         else if contains ''contains'' condition_text then
           (let target = strip (last (split_on ''contains'' condition_text));
                passed = contains target output
            in ConditionCheckResult c passed (FbContains target passed))
         else if contains ''format'' condition_text then
           (if contains ''array'' condition_text then
              (let passed = match_array (strip output)
               in ConditionCheckResult c passed (FbArrayFormat passed))
            else if contains ''number'' condition_text then
              (let passed = isdigit (strip output)
               in ConditionCheckResult c passed (FbNumberFormat passed))
            else ConditionCheckResult c True FbFormatUnknown)
         else ConditionCheckResult c True FbOutputUnknown)"

text \<open>
  \<^verbatim>\<open>re.search(r'(\d+(?:\.\d+)?)', condition_text)\<close>: the first run of digits, with a
  fraction when a dot and a digit follow; \<^const>\<open>None\<close> when there is no digit. Then
  \<^verbatim>\<open>float\<close> of the text matched.
\<close>

definition search_number :: "string \<Rightarrow> (string \<times> string) option" where
  "search_number s =
     (let r = dropWhile (\<lambda>c. \<not> isdigit_ascii c) s
      in if r = [] then None
         else
           let whole = takeWhile isdigit_ascii r;
               rest = dropWhile isdigit_ascii r;
               frac = (if take 1 rest = ''.'' then takeWhile isdigit_ascii (drop 1 rest) else [])
           in Some (whole, frac))"

definition float_of :: "string \<times> string \<Rightarrow> rat" where
  "float_of m =
     of_int (int_of_digits (fst m)) + of_int (int_of_digits (snd m)) / 10 ^ length (snd m)"

text \<open>
  \<^verbatim>\<open>check_performance_condition\<close>. The source calls \<^verbatim>\<open>.group(1)\<close> on the result of the
  search without testing it.
\<close>

definition check_performance_condition ::
  "problem_condition_check \<Rightarrow> rat \<Rightarrow> py_error + condition_check_result" where
  "check_performance_condition c execution_time =
     (let condition_text = lower (condition c)
      in if contains ''time limit'' condition_text then
           (case search_number condition_text of
              None \<Rightarrow> Inl (AttributeError (quote ''NoneType'' @ '' object has no attribute '' @ quote ''group''))
            | Some m \<Rightarrow>
                let time_limit = float_of m;
                    passed = (execution_time \<le> time_limit)
                in Inr (ConditionCheckResult c passed (FbTimeLimit execution_time time_limit passed)))
         else Inr (ConditionCheckResult c True FbPerformanceUnknown))"

text \<open>\<^verbatim>\<open>check_all_conditions\<close>: its loop, which the first exception leaves, and the function.\<close>

fun check_loop ::
  "re_lib \<Rightarrow> problem_condition_check list \<Rightarrow> string \<Rightarrow> string \<Rightarrow> string \<Rightarrow> rat
     \<Rightarrow> condition_check_result list \<Rightarrow> py_error + condition_check_result list" where
  "check_loop lib [] code out_str exp_str execution_time results = Inr results"
| "check_loop lib (c # conditions) code out_str exp_str execution_time results =
     (case (case check_type c of
              code_analysis \<Rightarrow> check_code_analysis_condition lib c code
            | output_validation \<Rightarrow> Inr (check_output_validation_condition c out_str exp_str)
            | performance \<Rightarrow> check_performance_condition c execution_time
            | gpt_check \<Rightarrow> Inr (ConditionCheckResult c True FbUnverifiable)) of
        Inl e \<Rightarrow> Inl e
      | Inr result \<Rightarrow>
          check_loop lib conditions code out_str exp_str execution_time (results @ [result]))"

definition check_all_conditions ::
  "re_lib \<Rightarrow> problem_condition_check list \<Rightarrow> string \<Rightarrow> string option \<Rightarrow> string option \<Rightarrow> rat
     \<Rightarrow> py_error + condition_check_result list" where
  "check_all_conditions lib conditions code output expected_output execution_time =
     check_loop lib conditions code (or_empty output) (or_empty expected_output) execution_time []"

section \<open>Execution sandbox: \<^verbatim>\<open>code_compiler.py\<close>\<close>

text \<open>
  Python objects whose type is not known statically: the three values
  \<^verbatim>\<open>_sample_peak_rss\<close> returns, and integers. A method call on an object of the wrong
  type raises \<^verbatim>\<open>AttributeError\<close>.
\<close>

datatype py_obj = IntObj int | EventObj | ThreadObj | ListObj "int list"

fun type_name :: "py_obj \<Rightarrow> string" where
  "type_name (IntObj n) = ''int''"
| "type_name EventObj = ''Event''"
| "type_name ThreadObj = ''Thread''"
| "type_name (ListObj xs) = ''list''"

definition no_attribute :: "py_obj \<Rightarrow> string \<Rightarrow> py_error" where
  "no_attribute obj attr =
     AttributeError (quote (type_name obj) @ '' object has no attribute '' @ quote attr)"

fun call_set :: "py_obj \<Rightarrow> py_error + unit" where
  "call_set EventObj = Inr ()"
| "call_set obj = Inl (no_attribute obj ''set'')"

fun call_join :: "py_obj \<Rightarrow> py_error + unit" where
  "call_join ThreadObj = Inr ()"
| "call_join obj = Inl (no_attribute obj ''join'')"

fun subscript0 :: "py_obj \<Rightarrow> py_error + int" where
  "subscript0 (ListObj (x # xs)) = Inr x"
| "subscript0 (ListObj []) = Inl (IndexError ''list index out of range'')"
| "subscript0 obj = Inl (TypeError (quote (type_name obj) @ '' object is not subscriptable''))"

text \<open>Results. \<open>result_output\<close> is the field \<^verbatim>\<open>output\<close> of the source.\<close>

datatype exec_status = SUCCESS | TIMEOUT | ERROR

datatype overall_status = Overall_success | Overall_partial | Overall_failed

record test_case =
  input :: string
  expected_output :: string

record runner_result =
  test_case_index :: nat
  status :: exec_status
  result_output :: string
  error :: "string option"
  execution_time :: rat
  memory_usage :: py_obj
  passed :: bool
  result_input :: string
  result_expected_output :: string

record run_output =
  success :: bool
  results :: "runner_result list"
  overall_status :: overall_status
  compile_memory_usage :: "py_obj option"

text \<open>The table \<^verbatim>\<open>CodeRunner.language_configs\<close>.\<close>

record lang_config =
  file_ext :: string
  compile_cmd :: "string list option"
  run_cmd :: "string list"
  main_class :: "string option"

definition language_configs :: "string \<Rightarrow> lang_config option" where
  "language_configs = map_of
     [(''python'', \<lparr>file_ext = ''.py'', compile_cmd = None,
          run_cmd = [''python'', ''{file}''], main_class = None\<rparr>),
      (''java'', \<lparr>file_ext = ''.java'', compile_cmd = Some [''javac'', ''{file}''],
          run_cmd = [''java'', ''{class_name}''], main_class = Some ''Solution''\<rparr>),
      (''cpp'', \<lparr>file_ext = ''.cpp'',
          compile_cmd = Some [''g++'', ''-O2'', ''-std=c++17'', ''-o'', ''{exe}'', ''{file}''],
          run_cmd = [''./{exe}''], main_class = None\<rparr>),
      (''c'', \<lparr>file_ext = ''.c'',
          compile_cmd = Some [''gcc'', ''-O2'', ''-std=c17'', ''-o'', ''{exe}'', ''{file}''],
          run_cmd = [''./{exe}''], main_class = None\<rparr>),
      (''javascript'', \<lparr>file_ext = ''.js'', compile_cmd = None,
          run_cmd = [''node'', ''{file}''], main_class = None\<rparr>)]"

definition TIMEOUT_SECONDS :: rat where
  "TIMEOUT_SECONDS = 5"

text \<open>
  The operating system. What a spawned command does is a parameter: it exits within the
  time limit (standard output, standard error, return code, elapsed milliseconds, peak
  memory sampled), it is still running when the limit expires (with a number of
  descendant processes, and the peak sampled), or \<^verbatim>\<open>Popen\<close> or \<^verbatim>\<open>psutil.Process\<close> raises. The state is the
  list of running processes. \<^verbatim>\<open>Popen\<close> adds the child; a child that exits leaves the
  list; when \<^verbatim>\<open>communicate(timeout=...)\<close> raises \<^verbatim>\<open>TimeoutExpired\<close> the child and its
  descendants stay in it, as Python's \<^verbatim>\<open>subprocess\<close> leaves them running. Creating and
  deleting the temporary files is not modelled; the file is named \<open>tmp_base\<close> followed
  by the extension.
\<close>

datatype proc_outcome =
    Exited string string int rat int
  | Hung nat int
  | SpawnError py_error

record os_state =
  live :: "nat list"
  next_pid :: nat

record os_env =
  which :: "string \<Rightarrow> bool"
  tmp_base :: string
  proc :: "nat \<Rightarrow> string \<Rightarrow> string list \<Rightarrow> string option \<Rightarrow> proc_outcome"
  regex :: re_lib

definition popen :: "proc_outcome \<Rightarrow> os_state \<Rightarrow> (py_error + nat) \<times> os_state" where
  "popen oc st =
     (case oc of
        SpawnError e \<Rightarrow> (Inl e, st)
      | _ \<Rightarrow> (Inr (next_pid st), st\<lparr>live := next_pid st # live st, next_pid := Suc (next_pid st)\<rparr>))"

definition communicate ::
  "proc_outcome \<Rightarrow> nat \<Rightarrow> os_state \<Rightarrow> (py_error + string \<times> string \<times> int) \<times> os_state" where
  "communicate oc pid st =
     (case oc of
        Exited out err rc ms peak \<Rightarrow> (Inr (out, err, rc), st\<lparr>live := removeAll pid (live st)\<rparr>)
      | Hung k peak \<Rightarrow>
          (Inl TimeoutExpired,
           st\<lparr>live := [next_pid st ..< next_pid st + k] @ live st, next_pid := next_pid st + k\<rparr>)
      | SpawnError e \<Rightarrow> (Inl e, st))"

text \<open>\<^verbatim>\<open>_sample_peak_rss\<close> returns \<^verbatim>\<open>(stop, t, peak)\<close>: an event, a thread and a list.\<close>

definition sample_peak_rss :: "proc_outcome \<Rightarrow> py_obj \<times> py_obj \<times> py_obj" where
  "sample_peak_rss oc =
     (let peak = ListObj [case oc of Exited out err rc ms p \<Rightarrow> p | Hung k p \<Rightarrow> p | SpawnError e \<Rightarrow> 0];
          stop = EventObj;
          t = ThreadObj
      in (stop, t, peak))"

text \<open>\<^verbatim>\<open>c.format(file=..., exe=..., class_name=...)\<close> over a command template.\<close>

fun format_go :: "nat \<Rightarrow> string \<Rightarrow> string \<Rightarrow> string \<Rightarrow> string \<Rightarrow> string" where
  "format_go k file exe class_name [] = []"
| "format_go k file exe class_name (c # cs) =
     (if 0 < k then format_go (k - 1) file exe class_name cs
      else if prefix ''{file}'' (c # cs) then file @ format_go 5 file exe class_name cs
      else if prefix ''{exe}'' (c # cs) then exe @ format_go 4 file exe class_name cs
      else if prefix ''{class_name}'' (c # cs) then class_name @ format_go 11 file exe class_name cs
      else c # format_go 0 file exe class_name cs)"

definition format_cmd :: "lang_config \<Rightarrow> string \<Rightarrow> string \<Rightarrow> string list \<Rightarrow> string list" where
  "format_cmd config file_path base_name cmd =
     map (format_go 0 file_path base_name (case main_class config of None \<Rightarrow> [] | Some m \<Rightarrow> m)) cmd"

text \<open>
  \<^verbatim>\<open>_prepare_code_file\<close>: the path, the path without its extension, the main class
  and the text written to the file.
\<close>

definition prepare_code_file ::
  "os_env \<Rightarrow> string \<Rightarrow> string \<Rightarrow> py_error + (string \<times> string \<times> string option \<times> string)" where
  "prepare_code_file env code language =
     (case language_configs language of
        None \<Rightarrow> Inl (KeyError (quote language))
      | Some config \<Rightarrow>
          if language = ''java'' then
            (case main_class config of
               None \<Rightarrow> Inl (KeyError (quote ''main_class''))
             | Some m \<Rightarrow>
                 Inr (tmp_base env @ file_ext config, tmp_base env, Some m,
                      ''public class '' @ m @ '' {'' @ [CHR 0x0A] @ code @ [CHR 0x0A] @ ''}''))
          else Inr (tmp_base env @ file_ext config, tmp_base env, None, code))"

text \<open>
  \<^verbatim>\<open>_compile_code\<close>. The two handlers of its \<^verbatim>\<open>try\<close> are \<open>compile_handler\<close>. The
  source unpacks the sampler's triple as \<^verbatim>\<open>peak, stop, t\<close>, and so does the model. An
  exception raised in the \<^verbatim>\<open>finally\<close> block replaces the one of \<^verbatim>\<open>communicate\<close>.
\<close>

definition compile_handler :: "py_error \<Rightarrow> bool \<times> string \<times> py_obj" where
  "compile_handler e =
     (case e of
        TimeoutExpired \<Rightarrow> (False, ''Compilation timed out'', IntObj 0)
      | _ \<Rightarrow> (False, str_of_error e, IntObj 0))"

definition compile_code ::
  "os_env \<Rightarrow> string \<Rightarrow> string \<Rightarrow> string \<Rightarrow> string \<Rightarrow> os_state
     \<Rightarrow> (py_error + bool \<times> string \<times> py_obj) \<times> os_state" where
  "compile_code env text file_path language base_name st =
     (case language_configs language of
        None \<Rightarrow> (Inl (KeyError (quote language)), st)
      | Some config \<Rightarrow>
          (case compile_cmd config of
             None \<Rightarrow> (Inr (True, [], IntObj 0), st)
           | Some [] \<Rightarrow> (Inr (True, [], IntObj 0), st)
           | Some ccmd \<Rightarrow>
               let cmd = format_cmd config file_path base_name ccmd;
                   oc = proc env (next_pid st) text cmd None
               in (case popen oc st of
                     (Inl e, st1) \<Rightarrow> (Inr (compile_handler e), st1)
                   | (Inr pid, st1) \<Rightarrow>
                       let (peak, stop, t) = sample_peak_rss oc;
                           (r, st2) = communicate oc pid st1;
                           fin = (case call_set stop of Inl e \<Rightarrow> Inl e | Inr u \<Rightarrow> call_join t)
                       in (case fin of
                             Inl e \<Rightarrow> (Inr (compile_handler e), st2)
                           | Inr u \<Rightarrow>
                               (case r of
                                  Inl e \<Rightarrow> (Inr (compile_handler e), st2)
                                | Inr (out, err, rc) \<Rightarrow> (Inr (rc = 0, err, peak), st2))))))"

text \<open>
  \<^verbatim>\<open>_judge\<close>: \<^verbatim>\<open>compare\<close> with the mode, then with the mode's value (the same
  comparison, as modes are compared by value), then the fallback of the runner.
\<close>

definition judge :: "re_lib \<Rightarrow> string \<Rightarrow> string \<Rightarrow> string \<Rightarrow> py_error + bool" where
  "judge lib outp expected rating_mode =
     (case compare lib (Some outp) (Some expected) rating_mode of
        Inr b \<Rightarrow> Inr b
      | Inl e1 \<Rightarrow>
          (case compare lib (Some outp) (Some expected) rating_mode of
             Inr b \<Rightarrow> Inr b
           | Inl e2 \<Rightarrow>
               let out = strip outp; exp = strip expected; mv = lower rating_mode
               in if contains ''regex'' mv then
                    (case re_fullmatch lib [] exp out of
                       Inr m \<Rightarrow> Inr m
                     | Inl (ReError msg) \<Rightarrow> Inr False
                     | Inl e \<Rightarrow> Inl e)
                  else if contains ''space'' mv \<or> contains ''whitespace'' mv then
                    Inr (concat (split_ws out) = concat (split_ws exp))
                  else Inr (out = exp)))"

text \<open>\<^verbatim>\<open>_run_test_case\<close> and its three kinds of result.\<close>

definition error_result :: "test_case \<Rightarrow> nat \<Rightarrow> py_error \<Rightarrow> runner_result" where
  "error_result tc i e =
     \<lparr>test_case_index = i, status = ERROR, result_output = [], error = Some (str_of_error e),
      execution_time = 0, memory_usage = IntObj 0, passed = False,
      result_input = input tc, result_expected_output = expected_output tc\<rparr>"

definition timeout_result :: "test_case \<Rightarrow> nat \<Rightarrow> runner_result" where
  "timeout_result tc i =
     \<lparr>test_case_index = i, status = TIMEOUT, result_output = [], error = Some ''Execution timed out'',
      execution_time = TIMEOUT_SECONDS * 1000, memory_usage = IntObj 0, passed = False,
      result_input = input tc, result_expected_output = expected_output tc\<rparr>"

definition after_exit ::
  "os_env \<Rightarrow> proc_outcome \<Rightarrow> test_case \<Rightarrow> nat \<Rightarrow> string \<Rightarrow> string \<Rightarrow> string \<Rightarrow> py_obj
     \<Rightarrow> runner_result" where
  "after_exit env oc tc i rating_mode stdout stderr peak =
     (let exec_ms = (case oc of Exited a b c ms p \<Rightarrow> ms | _ \<Rightarrow> 0);
          outp = strip stdout
      in case judge (regex env) outp (expected_output tc) rating_mode of
           Inl e \<Rightarrow> error_result tc i e
         | Inr p \<Rightarrow>
             (case subscript0 peak of
                Inl e \<Rightarrow> error_result tc i e
              | Inr m \<Rightarrow>
                  \<lparr>test_case_index = i, status = SUCCESS, result_output = outp,
                   error = (if stderr = [] then None else Some stderr),
                   execution_time = exec_ms, memory_usage = IntObj m,
                   passed = p, result_input = input tc,
                   result_expected_output = expected_output tc\<rparr>))"

definition run_test_case ::
  "os_env \<Rightarrow> string \<Rightarrow> string \<Rightarrow> string \<Rightarrow> string \<Rightarrow> test_case \<Rightarrow> nat \<Rightarrow> string \<Rightarrow> os_state
     \<Rightarrow> (py_error + runner_result) \<times> os_state" where
  "run_test_case env text file_path language base_name tc i rating_mode st =
     (case language_configs language of
        None \<Rightarrow> (Inl (KeyError (quote language)), st)
      | Some config \<Rightarrow>
          let cmd = format_cmd config file_path base_name (run_cmd config);
              oc = proc env (next_pid st) text cmd (Some (input tc))
          in (case popen oc st of
                (Inl e, st1) \<Rightarrow> (Inr (error_result tc i e), st1)
              | (Inr pid, st1) \<Rightarrow>
                  let (stop, t, peak) = sample_peak_rss oc;
                      (r, st2) = communicate oc pid st1;
                      fin = (case call_set stop of Inl e \<Rightarrow> Inl e | Inr u \<Rightarrow> call_join t)
                  in (Inr (case fin of
                             Inl e \<Rightarrow> error_result tc i e
                           | Inr u \<Rightarrow>
                               (case r of
                                  Inl TimeoutExpired \<Rightarrow> timeout_result tc i
                                | Inl e \<Rightarrow> error_result tc i e
                                | Inr (stdout, stderr, rc) \<Rightarrow>
                                    after_exit env oc tc i rating_mode stdout stderr peak)),
                      st2)))"

text \<open>\<^verbatim>\<open>_check_runtime\<close>: the loop over the binaries, then the function.\<close>

fun check_bins :: "os_env \<Rightarrow> string list \<Rightarrow> py_error + bool \<times> string" where
  "check_bins env [] = Inr (True, [])"
| "check_bins env (b # bins) =
     (case split_ws b of
        [] \<Rightarrow> Inl (IndexError ''list index out of range'')
      | w # ws \<Rightarrow>
          let b' = strip w
          in if CHR ''{'' \<in> set b' then check_bins env bins
             else if \<not> which env b'
               then Inr (False, ''Required runtime '' @ quote b' @ '' is not installed on server.'')
             else check_bins env bins)"

definition check_runtime :: "os_env \<Rightarrow> string \<Rightarrow> py_error + bool \<times> string" where
  "check_runtime env language =
     (case language_configs language of
        None \<Rightarrow> Inl (KeyError (quote language))
      | Some cfg \<Rightarrow>
          let bins = (case run_cmd cfg of [] \<Rightarrow> [] | r # rs \<Rightarrow> [r])
                     @ (case compile_cmd cfg of None \<Rightarrow> [] | Some [] \<Rightarrow> [] | Some (c # cs) \<Rightarrow> [c])
          in check_bins env bins)"

text \<open>
  \<^verbatim>\<open>run_code\<close>: the loop over the test cases (\<open>run_cases\<close>), what follows it
  (\<open>run_all\<close>), and the function itself.
\<close>

fun run_cases ::
  "os_env \<Rightarrow> string \<Rightarrow> string \<Rightarrow> string \<Rightarrow> string \<Rightarrow> string \<Rightarrow> nat \<Rightarrow> test_case list
     \<Rightarrow> runner_result list \<Rightarrow> os_state \<Rightarrow> (py_error + runner_result list) \<times> os_state" where
  "run_cases env text file_path language base_name rating_mode i [] acc st = (Inr acc, st)"
| "run_cases env text file_path language base_name rating_mode i (tc # tcs) acc st =
     (case run_test_case env text file_path language base_name tc i rating_mode st of
        (Inl e, st1) \<Rightarrow> (Inl e, st1)
      | (Inr r, st1) \<Rightarrow>
          run_cases env text file_path language base_name rating_mode (Suc i) tcs (acc @ [r]) st1)"

definition missing_runtime_result :: "string \<Rightarrow> nat \<Rightarrow> test_case \<Rightarrow> runner_result" where
  "missing_runtime_result msg i tc =
     \<lparr>test_case_index = i, status = ERROR, result_output = [], error = Some msg,
      execution_time = 0, memory_usage = IntObj 0, passed = False,
      result_input = input tc, result_expected_output = expected_output tc\<rparr>"

definition compile_error_result :: "string \<Rightarrow> py_obj \<Rightarrow> runner_result" where
  "compile_error_result err compile_peak =
     \<lparr>test_case_index = 0, status = ERROR, result_output = [],
      error = Some (''Compilation error: '' @ err),
      execution_time = 0, memory_usage = compile_peak, passed = False,
      result_input = [], result_expected_output = []\<rparr>"

definition needs_compile :: "string \<Rightarrow> bool" where
  "needs_compile language =
     (case language_configs language of
        None \<Rightarrow> False
      | Some cfg \<Rightarrow> (case compile_cmd cfg of None \<Rightarrow> False | Some c \<Rightarrow> c \<noteq> []))"

definition run_all ::
  "os_env \<Rightarrow> string \<Rightarrow> string \<Rightarrow> string \<Rightarrow> string \<Rightarrow> string \<Rightarrow> test_case list \<Rightarrow> py_obj
     \<Rightarrow> os_state \<Rightarrow> (py_error + run_output) \<times> os_state" where
  "run_all env text file_path language base_name rating_mode test_cases compile_peak st =
     (case run_cases env text file_path language base_name rating_mode 0 test_cases [] st of
        (Inl e, st1) \<Rightarrow> (Inl e, st1)
      | (Inr rs, st1) \<Rightarrow>
          let passed_count = length (filter passed rs);
              overall = (if passed_count = length test_cases then Overall_success
                         else if passed_count = 0 then Overall_failed
                         else Overall_partial)
          in (Inr \<lparr>success = True, results = rs, overall_status = overall,
                    compile_memory_usage = Some compile_peak\<rparr>, st1))"

definition run_code ::
  "os_env \<Rightarrow> string \<Rightarrow> string \<Rightarrow> test_case list \<Rightarrow> string \<Rightarrow> os_state
     \<Rightarrow> (py_error + run_output) \<times> os_state" where
  "run_code env code language test_cases rating_mode st =
     (case check_runtime env language of
        Inl e \<Rightarrow> (Inl e, st)
      | Inr (ok, msg) \<Rightarrow>
          if \<not> ok then
            (Inr \<lparr>success = False,
                  results = map (\<lambda>(i, tc). missing_runtime_result msg i tc) (enumerate 0 test_cases),
                  overall_status = Overall_failed, compile_memory_usage = None\<rparr>, st)
          else
            (case prepare_code_file env code language of
               Inl e \<Rightarrow> (Inl e, st)
             | Inr (file_path, base_name, mc, text) \<Rightarrow>
                 if needs_compile language then
                   (case compile_code env text file_path language base_name st of
                      (Inl e, st1) \<Rightarrow> (Inl e, st1)
                    | (Inr (ok', err, compile_peak), st1) \<Rightarrow>
                        if \<not> ok' then
                          (Inr \<lparr>success = False, results = [compile_error_result err compile_peak],
                                overall_status = Overall_failed,
                                compile_memory_usage = Some compile_peak\<rparr>, st1)
                        else run_all env text file_path language base_name rating_mode test_cases
                               compile_peak st1)
                 else run_all env text file_path language base_name rating_mode test_cases
                        (IntObj 0) st))"

text \<open>
  The two conditions under which \<^verbatim>\<open>run_code\<close> returns before the loop over the test
  cases: \<^verbatim>\<open>ok\<close> is false after \<^verbatim>\<open>_check_runtime\<close>, and \<^verbatim>\<open>success\<close> is false after
  \<^verbatim>\<open>_compile_code\<close>.
\<close>

definition runtime_missing :: "os_env \<Rightarrow> string \<Rightarrow> bool" where
  "runtime_missing env language =
     (case check_runtime env language of Inr (ok, msg) \<Rightarrow> \<not> ok | Inl e \<Rightarrow> False)"

definition compilation_fails :: "os_env \<Rightarrow> string \<Rightarrow> string \<Rightarrow> os_state \<Rightarrow> bool" where
  "compilation_fails env code language st =
     (case prepare_code_file env code language of
        Inl e \<Rightarrow> False
      | Inr (file_path, base_name, mc, text) \<Rightarrow>
          needs_compile language \<and>
          (case fst (compile_code env text file_path language base_name st) of
             Inl e \<Rightarrow> False
           | Inr (ok, err, peak) \<Rightarrow> \<not> ok))"

text \<open>
  Three environments for the examples: every binary is installed and every process
  exits at once printing \<^verbatim>\<open>hi\<close>; the same without \<^verbatim>\<open>gcc\<close>; the same with processes
  that never exit and have two descendants.
\<close>

definition env_all_exit :: os_env where
  "env_all_exit =
     \<lparr>which = (\<lambda>b. True), tmp_base = ''/tmp/tmpabc'',
      proc = (\<lambda>pid text cmd stdin. Exited ''hi'' [] 0 12 1000),
      regex = \<lparr>lib_fullmatch = (\<lambda>flags pat s. Inr False),
                lib_search = (\<lambda>flags pat s. Inr False)\<rparr>\<rparr>"

definition env_without_gcc :: os_env where
  "env_without_gcc = env_all_exit\<lparr>which := (\<lambda>b. b \<noteq> ''gcc'')\<rparr>"

definition env_hanging :: os_env where
  "env_hanging = env_all_exit\<lparr>proc := (\<lambda>pid text cmd stdin. Hung 2 0)\<rparr>"

section \<open>Notions used in the proofs\<close>

text \<open>The shape of a normalised string, one predicate for each pass.\<close>

definition ws_is_blank :: "string \<Rightarrow> bool" where
  "ws_is_blank s = (\<forall>c\<in>set s. isspace c \<longrightarrow> c = CHR '' '')"

definition no_ws_pair :: "char \<Rightarrow> char \<Rightarrow> bool" where
  "no_ws_pair a b = (\<not> (isspace a \<and> isspace b))"

definition bracket_tight :: "char \<Rightarrow> char \<Rightarrow> bool" where
  "bracket_tight a b = (\<not> (isspace a \<and> isbracket b) \<and> \<not> (isbracket a \<and> isspace b))"

definition comma_tight :: "char \<Rightarrow> char \<Rightarrow> bool" where
  "comma_tight a b = (\<not> (a = CHR '','' \<and> isspace b))"

definition trimmed :: "string \<Rightarrow> bool" where
  "trimmed s = (s = [] \<or> (\<not> isspace (hd s) \<and> \<not> isspace (last s)))"

definition normal :: "string \<Rightarrow> bool" where
  "normal s \<longleftrightarrow> ws_is_blank s \<and> successively no_ws_pair s \<and> successively bracket_tight s
     \<and> successively comma_tight s \<and> trimmed s"



text \<open>
  A result that belongs to a test case: index, input and expected output are the test
  case's, and it passed only with status \<^verbatim>\<open>SUCCESS\<close>.
\<close>

definition result_for :: "test_case \<Rightarrow> nat \<Rightarrow> runner_result \<Rightarrow> bool" where
  "result_for tc i r \<longleftrightarrow> test_case_index r = i \<and> result_input r = input tc
     \<and> result_expected_output r = expected_output tc \<and> (status r = SUCCESS \<or> \<not> passed r)"

section \<open>Properties of the output judge\<close>

lemma isspace_blank: "isspace CHR '' ''"
  by (simp add: isspace_def)

lemma isspace_newline: "isspace (CHR 0x0A)"
  by (simp add: isspace_def)

lemma bracket_not_space: "isbracket c \<Longrightarrow> \<not> isspace c"
  by (auto simp: isbracket_def isspace_def)

lemma comma_not_space: "\<not> isspace CHR '',''"
  by (simp add: isspace_def)

lemma comma_not_bracket: "\<not> isbracket CHR '',''"
  by (simp add: isbracket_def)

lemma successively_suffix: "suffix ys xs \<Longrightarrow> successively P xs \<Longrightarrow> successively P ys"
  by (auto simp: suffix_def successively_append_iff)

lemma successively_dropWhile: "successively P xs \<Longrightarrow> successively P (dropWhile Q xs)"
  by (rule successively_suffix [OF suffix_dropWhile])

lemma dropWhile_id_hd: "xs = [] \<or> \<not> Q (hd xs) \<Longrightarrow> dropWhile Q xs = xs"
  by (cases xs) auto

subsection \<open>Collapsing whitespace\<close>

lemma sub_spaces_Nil_iff: "sub_spaces s = [] \<longleftrightarrow> s = []"
  by (cases s) auto

lemma sub_spaces_hd: "s \<noteq> [] \<Longrightarrow> \<not> isspace (hd s) \<Longrightarrow> hd (sub_spaces s) = hd s"
  by (cases s) auto

lemma sub_spaces_blank: "ws_is_blank (sub_spaces s)"
proof (induction s rule: sub_spaces.induct)
  case 1
  show ?case by (simp add: ws_is_blank_def)
next
  case (2 c cs)
  then show ?case by (auto simp: ws_is_blank_def)
qed

lemma sub_spaces_no_ws_pair: "successively no_ws_pair (sub_spaces s)"
proof (induction s rule: sub_spaces.induct)
  case 1
  show ?case by simp
next
  case (2 c cs)
  show ?case
  proof (cases "isspace c")
    case True
    let ?r = "dropWhile isspace cs"
    have "?r \<noteq> [] \<Longrightarrow> \<not> isspace (hd (sub_spaces ?r))"
      using hd_dropWhile [of isspace cs] by (simp add: sub_spaces_hd)
    with True 2(1) show ?thesis
      by (auto simp: successively_Cons sub_spaces_Nil_iff no_ws_pair_def)
  next
    case False
    with 2(2) show ?thesis
      by (auto simp: successively_Cons no_ws_pair_def)
  qed
qed

lemma sub_spaces_id:
  "ws_is_blank s \<Longrightarrow> successively no_ws_pair s \<Longrightarrow> sub_spaces s = s"
proof (induction s rule: sub_spaces.induct)
  case 1
  show ?case by simp
next
  case (2 c cs)
  have blank: "ws_is_blank cs" using 2(3) by (simp add: ws_is_blank_def)
  have succ: "successively no_ws_pair cs" using 2(4) by (auto simp: successively_Cons)
  show ?case
  proof (cases "isspace c")
    case True
    then have c: "c = CHR '' ''" using 2(3) by (simp add: ws_is_blank_def)
    have "cs = [] \<or> \<not> isspace (hd cs)"
      using 2(4) True by (auto simp: successively_Cons no_ws_pair_def)
    then have d: "dropWhile isspace cs = cs" by (rule dropWhile_id_hd)
    show ?thesis using True c d 2(1) blank succ by simp
  next
    case False
    then show ?thesis using 2(2) blank succ by simp
  qed
qed

lemma replace_newline_id: "ws_is_blank s \<Longrightarrow> replace_newline s = s"
proof -
  assume b: "ws_is_blank s"
  have "\<forall>c\<in>set s. c \<noteq> CHR 0x0A"
  proof
    fix c assume "c \<in> set s"
    show "c \<noteq> CHR 0x0A"
    proof
      assume "c = CHR 0x0A"
      with b \<open>c \<in> set s\<close> isspace_newline have "CHR 0x0A = CHR '' ''"
        by (auto simp: ws_is_blank_def)
      then show False by simp
    qed
  qed
  then show ?thesis by (simp add: replace_newline_def map_idI)
qed

subsection \<open>Tightening brackets\<close>

lemma sub_brackets_Nil_iff: "sub_brackets s = [] \<longleftrightarrow> s = []"
  by (cases s) (auto split: list.splits)

lemma sub_brackets_set: "set (sub_brackets s) \<subseteq> set s"
proof (induction s rule: sub_brackets.induct)
  case 1
  show ?case by simp
next
  case (2 c cs)
  show ?case
  proof (cases "dropWhile isspace (c # cs)")
    case Nil
    with 2(1) show ?thesis by auto
  next
    case (Cons b rest)
    have sub: "set (b # rest) \<subseteq> set (c # cs)"
      unfolding Cons [symmetric] by (auto dest: set_dropWhileD)
    show ?thesis
    proof (cases "isbracket b")
      case True
      have "set (sub_brackets (dropWhile isspace rest)) \<subseteq> set rest"
        using 2(2) [OF Cons True] by (auto dest: set_dropWhileD)
      with sub Cons True show ?thesis by auto
    next
      case False
      with 2(3) [OF Cons False] Cons show ?thesis by auto
    qed
  qed
qed

lemma sub_brackets_hd:
  "s \<noteq> [] \<Longrightarrow> hd (sub_brackets s) = hd s \<or> isbracket (hd (sub_brackets s))"
  by (cases s) (auto split: list.splits)

lemma sub_brackets_hd_no_space:
  "s \<noteq> [] \<Longrightarrow> \<not> isspace (hd s) \<Longrightarrow> \<not> isspace (hd (sub_brackets s))"
  using sub_brackets_hd [of s] bracket_not_space by auto

lemma sub_brackets_preserve:
  assumes "successively Q s"
    and br: "\<And>b x. isbracket b \<Longrightarrow> Q b x \<and> Q x b"
  shows "successively Q (sub_brackets s)"
  using assms(1)
proof (induction s rule: sub_brackets.induct)
  case 1
  show ?case by simp
next
  case (2 c cs)
  have tl: "successively Q cs" using 2(4) by (auto simp: successively_Cons)
  have step: "successively Q (c # sub_brackets cs)" if ih: "successively Q (sub_brackets cs)"
  proof (cases "cs = []")
    case True
    then show ?thesis by simp
  next
    case False
    then have "Q c (hd cs)" using 2(4) by (auto simp: successively_Cons)
    with sub_brackets_hd [OF False] br have "Q c (hd (sub_brackets cs))" by auto
    with ih show ?thesis by (simp add: successively_Cons)
  qed
  show ?case
  proof (cases "dropWhile isspace (c # cs)")
    case Nil
    with step 2(1) tl show ?thesis by simp
  next
    case (Cons b rest)
    show ?thesis
    proof (cases "isbracket b")
      case True
      have "successively Q (b # rest)"
        unfolding Cons [symmetric] using 2(4) by (rule successively_dropWhile)
      then have "successively Q rest" by (auto simp: successively_Cons)
      then have "successively Q (dropWhile isspace rest)" by (rule successively_dropWhile)
      then have "successively Q (sub_brackets (dropWhile isspace rest))"
        by (rule 2(2) [OF Cons True])
      with br [OF True] Cons True show ?thesis
        by (simp add: successively_Cons)
    next
      case False
      with step 2(3) [OF Cons False] tl Cons show ?thesis by simp
    qed
  qed
qed

lemma sub_brackets_tight: "successively bracket_tight (sub_brackets s)"
proof (induction s rule: sub_brackets.induct)
  case 1
  show ?case by simp
next
  case (2 c cs)
  have step: "successively bracket_tight (c # sub_brackets cs)"
    if ih: "successively bracket_tight (sub_brackets cs)"
      and nomatch: "\<And>b rest. dropWhile isspace (c # cs) = b # rest \<Longrightarrow> \<not> isbracket b"
  proof (cases "cs = []")
    case True
    then show ?thesis by simp
  next
    case False
    have "bracket_tight c (hd (sub_brackets cs))"
    proof (cases "isspace c")
      case True
      then have same: "dropWhile isspace (c # cs) = dropWhile isspace cs" by simp
      have "\<not> isbracket (hd (sub_brackets cs))"
      proof (cases "dropWhile isspace cs")
        case Nil
        with False show ?thesis
          using nomatch same
          by (cases cs) (auto split: list.splits if_splits dest: bracket_not_space)
      next
        case (Cons b rest)
        with nomatch same have nb: "\<not> isbracket b" by simp
        from False obtain d ds where cs: "cs = d # ds" by (cases cs) auto
        have "sub_brackets cs = d # sub_brackets ds"
          using Cons nb cs by simp
        moreover have "\<not> isbracket d"
        proof
          assume d: "isbracket d"
          then have "\<not> isspace d" by (rule bracket_not_space)
          then have "dropWhile isspace cs = d # ds" using cs by simp
          with Cons nb d show False by simp
        qed
        ultimately show ?thesis by simp
      qed
      with True show ?thesis by (auto simp: bracket_tight_def dest: bracket_not_space)
    next
      case ns: False
      then have "dropWhile isspace (c # cs) = c # cs" by simp
      with nomatch have "\<not> isbracket c" by simp
      with ns show ?thesis by (simp add: bracket_tight_def)
    qed
    with ih show ?thesis by (simp add: successively_Cons)
  qed
  show ?case
  proof (cases "dropWhile isspace (c # cs)")
    case Nil
    with step 2(1) show ?thesis by simp
  next
    case (Cons b rest)
    show ?thesis
    proof (cases "isbracket b")
      case True
      let ?r = "dropWhile isspace rest"
      have ih: "successively bracket_tight (sub_brackets ?r)"
        by (rule 2(2) [OF Cons True])
      have "?r \<noteq> [] \<Longrightarrow> \<not> isspace (hd (sub_brackets ?r))"
        using hd_dropWhile [of isspace rest] by (simp add: sub_brackets_hd_no_space)
      with ih Cons True show ?thesis
        by (auto simp: successively_Cons sub_brackets_Nil_iff bracket_tight_def
            dest: bracket_not_space)
    next
      case False
      with step 2(3) [OF Cons False] Cons show ?thesis by simp
    qed
  qed
qed

lemma sub_brackets_id:
  "successively no_ws_pair s \<Longrightarrow> successively bracket_tight s \<Longrightarrow> sub_brackets s = s"
proof (induction s rule: sub_brackets.induct)
  case 1
  show ?case by simp
next
  case (2 c cs)
  have tl: "successively no_ws_pair cs" "successively bracket_tight cs"
    using 2(4,5) by (auto simp: successively_Cons)
  have nxt: "cs = [] \<or> (no_ws_pair c (hd cs) \<and> bracket_tight c (hd cs))"
    using 2(4,5) by (auto simp: successively_Cons)
  show ?case
  proof (cases "dropWhile isspace (c # cs)")
    case Nil
    with 2(1) tl show ?thesis by simp
  next
    case (Cons b rest)
    show ?thesis
    proof (cases "isbracket b")
      case True
      have "\<not> isspace c"
      proof
        assume sp: "isspace c"
        with nxt have "cs = [] \<or> (\<not> isspace (hd cs) \<and> \<not> isbracket (hd cs))"
          by (auto simp: no_ws_pair_def bracket_tight_def)
        then show False
        proof
          assume "cs = []"
          with sp Cons show False by simp
        next
          assume h: "\<not> isspace (hd cs) \<and> \<not> isbracket (hd cs)"
          then have "cs \<noteq> [] \<Longrightarrow> dropWhile isspace cs = cs" by (cases cs) auto
          with sp Cons True h show False by (cases cs) auto
        qed
      qed
      then have bc: "b = c" "rest = cs" using Cons by auto
      with True nxt have "cs = [] \<or> \<not> isspace (hd cs)"
        by (auto simp: bracket_tight_def)
      then have d: "dropWhile isspace cs = cs" by (rule dropWhile_id_hd)
      have "sub_brackets (dropWhile isspace rest) = dropWhile isspace rest"
        using 2(2) [OF Cons True] tl d bc by simp
      with Cons True bc d show ?thesis by simp
    next
      case False
      with 2(3) [OF Cons False] tl Cons show ?thesis by simp
    qed
  qed
qed

subsection \<open>Tightening commas\<close>

lemma sub_commas_Nil_iff: "sub_commas s = [] \<longleftrightarrow> s = []"
  by (cases s) auto

lemma sub_commas_hd: "s \<noteq> [] \<Longrightarrow> hd (sub_commas s) = hd s"
  by (cases s) auto

lemma sub_commas_set: "set (sub_commas s) \<subseteq> set s"
proof (induction s rule: sub_commas.induct)
  case 1
  show ?case by simp
next
  case (2 c cs)
  then show ?case by (auto dest: set_dropWhileD)
qed

lemma sub_commas_preserve:
  assumes "successively Q s"
    and comma: "\<And>x. Q CHR '','' x"
  shows "successively Q (sub_commas s)"
  using assms(1)
proof (induction s rule: sub_commas.induct)
  case 1
  show ?case by simp
next
  case (2 c cs)
  have tl: "successively Q cs" using 2(3) by (auto simp: successively_Cons)
  show ?case
  proof (cases "c = CHR '',''")
    case True
    have "successively Q (sub_commas (dropWhile isspace cs))"
      using 2(1) [OF True] tl by (simp add: successively_dropWhile)
    with True comma show ?thesis by (simp add: successively_Cons)
  next
    case False
    have "successively Q (sub_commas cs)" using 2(2) [OF False] tl by simp
    moreover have "cs \<noteq> [] \<Longrightarrow> Q c (hd (sub_commas cs))"
      using 2(3) by (auto simp: successively_Cons sub_commas_hd)
    ultimately show ?thesis using False
      by (auto simp: successively_Cons sub_commas_Nil_iff)
  qed
qed

lemma sub_commas_tight: "successively comma_tight (sub_commas s)"
proof (induction s rule: sub_commas.induct)
  case 1
  show ?case by simp
next
  case (2 c cs)
  show ?case
  proof (cases "c = CHR '',''")
    case True
    let ?r = "dropWhile isspace cs"
    have "?r \<noteq> [] \<Longrightarrow> \<not> isspace (hd (sub_commas ?r))"
      using hd_dropWhile [of isspace cs] by (simp add: sub_commas_hd)
    with True 2(1) show ?thesis
      by (auto simp: successively_Cons sub_commas_Nil_iff comma_tight_def)
  next
    case False
    with 2(2) show ?thesis by (auto simp: successively_Cons comma_tight_def)
  qed
qed

lemma sub_commas_id: "successively comma_tight s \<Longrightarrow> sub_commas s = s"
proof (induction s rule: sub_commas.induct)
  case 1
  show ?case by simp
next
  case (2 c cs)
  have tl: "successively comma_tight cs" using 2(3) by (auto simp: successively_Cons)
  show ?case
  proof (cases "c = CHR '',''")
    case True
    have "cs = [] \<or> \<not> isspace (hd cs)"
      using 2(3) True by (auto simp: successively_Cons comma_tight_def)
    then have d: "dropWhile isspace cs = cs" by (rule dropWhile_id_hd)
    with True 2(1) tl show ?thesis by simp
  next
    case False
    with 2(2) tl show ?thesis by simp
  qed
qed

subsection \<open>Stripping\<close>

lemma strip_set: "set (strip s) \<subseteq> set s"
  by (auto simp: strip_def lstrip_def rstrip_def dest!: set_dropWhileD)

lemma successively_strip: "successively Q s \<Longrightarrow> successively Q (strip s)"
proof -
  assume "successively Q s"
  then have "successively Q (dropWhile isspace s)" by (rule successively_dropWhile)
  then have "successively (\<lambda>x y. Q y x) (rev (dropWhile isspace s))" by simp
  then have "successively (\<lambda>x y. Q y x) (dropWhile isspace (rev (dropWhile isspace s)))"
    by (rule successively_dropWhile)
  then show ?thesis by (simp add: strip_def lstrip_def rstrip_def)
qed

lemma rstrip_prefix: "prefix (rstrip s) s"
proof -
  have "suffix (dropWhile isspace (rev s)) (rev s)" by (rule suffix_dropWhile)
  then show ?thesis by (simp add: rstrip_def suffix_to_prefix)
qed

lemma trimmed_strip: "trimmed (strip s)"
proof (cases "strip s = []")
  case True
  then show ?thesis by (simp add: trimmed_def)
next
  case False
  let ?t = "lstrip s"
  from False have ne: "dropWhile isspace (rev ?t) \<noteq> []"
    by (simp add: strip_def rstrip_def)
  have "last (strip s) = hd (dropWhile isspace (rev ?t))"
    using ne by (simp add: strip_def rstrip_def last_rev)
  then have l: "\<not> isspace (last (strip s))"
    using hd_dropWhile [OF ne] by simp
  have "prefix (strip s) ?t" unfolding strip_def by (rule rstrip_prefix)
  then obtain zs where zs: "?t = strip s @ zs" by (auto simp: prefix_def)
  with False have h: "hd (strip s) = hd ?t" by (metis hd_append2)
  from zs False have "?t \<noteq> []" by auto
  then have "\<not> isspace (hd ?t)" unfolding lstrip_def by (rule hd_dropWhile)
  with h l show ?thesis by (simp add: trimmed_def)
qed

lemma strip_id: "trimmed s \<Longrightarrow> strip s = s"
proof (cases "s = []")
  case True
  then show ?thesis by (simp add: strip_def lstrip_def rstrip_def)
next
  case False
  assume "trimmed s"
  with False have h: "\<not> isspace (hd s)" and l: "\<not> isspace (last s)"
    by (auto simp: trimmed_def)
  from h False have "lstrip s = s" by (cases s) (auto simp: lstrip_def)
  moreover from l False have "rstrip s = s"
    by (cases s rule: rev_cases) (auto simp: rstrip_def)
  ultimately show ?thesis by (simp add: strip_def)
qed

subsection \<open>Idempotence\<close>

lemma ws_is_blank_subset: "set t \<subseteq> set s \<Longrightarrow> ws_is_blank s \<Longrightarrow> ws_is_blank t"
  by (auto simp: ws_is_blank_def)

lemma normal_normalize_space: "normal (normalize_space text)"
proof -
  define a where "a = sub_spaces (replace_newline (or_empty text))"
  define b where "b = sub_brackets a"
  define c where "c = sub_commas b"
  have a: "ws_is_blank a" "successively no_ws_pair a"
    by (simp_all add: a_def sub_spaces_blank sub_spaces_no_ws_pair)
  have b: "ws_is_blank b" "successively no_ws_pair b" "successively bracket_tight b"
  proof -
    show "ws_is_blank b"
      unfolding b_def by (rule ws_is_blank_subset [OF sub_brackets_set a(1)])
    show "successively no_ws_pair b"
      unfolding b_def using a(2)
      by (rule sub_brackets_preserve) (auto simp: no_ws_pair_def dest: bracket_not_space)
    show "successively bracket_tight b"
      unfolding b_def by (rule sub_brackets_tight)
  qed
  have c: "ws_is_blank c" "successively no_ws_pair c" "successively bracket_tight c"
    "successively comma_tight c"
  proof -
    show "ws_is_blank c"
      unfolding c_def by (rule ws_is_blank_subset [OF sub_commas_set b(1)])
    show "successively no_ws_pair c"
      unfolding c_def using b(2)
      by (rule sub_commas_preserve) (simp add: no_ws_pair_def comma_not_space)
    show "successively bracket_tight c"
      unfolding c_def using b(3)
      by (rule sub_commas_preserve)
        (simp add: bracket_tight_def comma_not_space comma_not_bracket)
    show "successively comma_tight c"
      unfolding c_def by (rule sub_commas_tight)
  qed
  have n: "normalize_space text = strip c"
    by (simp add: normalize_space_def a_def b_def c_def)
  show ?thesis
    unfolding normal_def n
    using c ws_is_blank_subset [OF strip_set c(1)]
    by (simp add: successively_strip trimmed_strip)
qed

lemma normalize_space_normal: "normal s \<Longrightarrow> normalize_space (Some s) = s"
  by (simp add: normal_def normalize_space_def or_empty_def replace_newline_id
      sub_spaces_id sub_brackets_id sub_commas_id strip_id)

text \<open>
  C10. Normalising for SPACE mode is idempotent: for every string (and for \<^verbatim>\<open>None\<close>),
  normalising the result of \<^const>\<open>normalize_space\<close> again changes nothing.
\<close>

theorem normalize_space_idempotent:
  "normalize_space (Some (normalize_space s)) = normalize_space s"
  by (rule normalize_space_normal [OF normal_normalize_space])


subsection \<open>REGEX mode\<close>

lemma compare_regex_result:
  "sre_parse_fault (strip (or_empty expected)) = None \<Longrightarrow>
   lib_fullmatch lib [DOTALL, MULTILINE] (strip (or_empty expected)) (strip (or_empty output)) = Inr m \<Longrightarrow>
   compare lib output expected ''regex'' = Inr m"
  by (simp add: compare_def compare_regex_def re_fullmatch_def)

lemma compare_regex_re_error:
  "sre_parse_fault (strip (or_empty expected)) = None \<Longrightarrow>
   lib_fullmatch lib [DOTALL, MULTILINE] (strip (or_empty expected)) (strip (or_empty output))
     = Inl (ReError msg) \<Longrightarrow>
   compare lib output expected ''regex'' = Inr False"
  by (simp add: compare_def compare_regex_def re_fullmatch_def)

text \<open>
  C9. In REGEX mode \<^const>\<open>compare\<close> catches \<^verbatim>\<open>re.error\<close> only. For the expected
  pattern \<^verbatim>\<open>a{99999999999}\<close> the parser raises \<^verbatim>\<open>OverflowError\<close>, whatever the output
  and whatever the matcher, and \<^const>\<open>compare\<close> lets it through: it raises where the
  specification has it return false.
\<close>

theorem compare_regex_raises_overflow:
  "compare lib output (Some ''a{99999999999}'') ''regex''
     = Inl (OverflowError ''the repetition number is too large'')"
  by code_simp

section \<open>Properties of the condition checker\<close>

text \<open>
  C4. \<^const>\<open>check_all_conditions\<close> raises on two lists of one condition, for every code,
  output, expected output and execution time. A performance condition \<^verbatim>\<open>time limit\<close>
  with no number in it: \<^verbatim>\<open>re.search\<close> finds nothing and \<^verbatim>\<open>.group(1)\<close> is called on
  \<^verbatim>\<open>None\<close>. A code analysis condition \<^verbatim>\<open>uses recursion\<close>: the pattern refers to
  group 1 and has no group, so compiling it raises \<^verbatim>\<open>re.error\<close> before the code is looked
  at.
\<close>

theorem check_all_conditions_raises:
  "check_all_conditions lib
     [\<lparr>condition = ''time limit'', is_required = True, check_type = performance,
       description = None\<rparr>]
     code outp expected t
     = Inl (AttributeError (quote ''NoneType'' @ '' object has no attribute '' @ quote ''group''))
   \<and> check_all_conditions lib
     [\<lparr>condition = ''uses recursion'', is_required = True, check_type = code_analysis,
       description = None\<rparr>]
     code outp expected t
     = Inl (ReError ''invalid group reference 1'')"
  by code_simp

section \<open>Properties of the execution sandbox\<close>

lemma language_configs_dom:
  "language_configs l \<noteq> None \<longleftrightarrow> l \<in> {''python'', ''java'', ''cpp'', ''c'', ''javascript''}"
  by (simp add: language_configs_def)

lemma compile_handler_fails: "\<exists>err. compile_handler e = (False, err, IntObj 0)"
  by (cases e) (simp_all add: compile_handler_def)

lemma compile_code_fails:
  assumes "language_configs language = Some config"
    and "compile_cmd config = Some (c # cs)"
  shows "\<exists>err st'. compile_code env text file_path language base_name st
           = (Inr (False, err, IntObj 0), st')"
proof -
  define oc where
    "oc = proc env (next_pid st) text (format_cmd config file_path base_name (c # cs)) None"
  show ?thesis
  proof (cases "popen oc st")
    case (Pair r st1)
    show ?thesis
    proof (cases r)
      case (Inl e)
      with Pair assms compile_handler_fails [of e] show ?thesis
        by (auto simp: compile_code_def Let_def oc_def [symmetric])
    next
      case (Inr pid)
      obtain r2 st2 where c: "communicate oc pid st1 = (r2, st2)"
        by (cases "communicate oc pid st1")
      obtain err where h: "compile_handler (no_attribute ThreadObj ''set'') = (False, err, IntObj 0)"
        using compile_handler_fails by blast
      from Pair Inr c assms h show ?thesis
        by (auto simp: compile_code_def Let_def oc_def [symmetric] sample_peak_rss_def)
    qed
  qed
qed

lemma error_result_fields:
  "test_case_index (error_result tc i e) = i" "status (error_result tc i e) = ERROR"
  "\<not> passed (error_result tc i e)" "result_input (error_result tc i e) = input tc"
  "result_expected_output (error_result tc i e) = expected_output tc"
  by (simp_all add: error_result_def)

lemma timeout_result_fields:
  "test_case_index (timeout_result tc i) = i" "status (timeout_result tc i) = TIMEOUT"
  "\<not> passed (timeout_result tc i)" "result_input (timeout_result tc i) = input tc"
  "result_expected_output (timeout_result tc i) = expected_output tc"
  "execution_time (timeout_result tc i) = 5000" "memory_usage (timeout_result tc i) = IntObj 0"
  by (simp_all add: timeout_result_def TIMEOUT_SECONDS_def)

lemma after_exit_for: "result_for tc i (after_exit env oc tc i mode out err peak)"
  by (auto simp: after_exit_def result_for_def Let_def error_result_fields split: sum.splits)

lemma run_test_case_returns:
  assumes "language_configs language = Some config"
  shows "\<exists>r st'. run_test_case env text file_path language base_name tc i mode st = (Inr r, st')
           \<and> result_for tc i r"
proof -
  define oc where
    "oc = proc env (next_pid st) text (format_cmd config file_path base_name (run_cmd config))
            (Some (input tc))"
  have e: "result_for tc i (error_result tc i x)" for x
    by (simp add: result_for_def error_result_fields)
  have t: "result_for tc i (timeout_result tc i)"
    by (simp add: result_for_def timeout_result_fields)
  show ?thesis
  proof (cases "popen oc st")
    case (Pair r st1)
    show ?thesis
    proof (cases r)
      case (Inl x)
      with Pair assms e show ?thesis
        by (simp add: run_test_case_def Let_def oc_def [symmetric])
    next
      case (Inr pid)
      obtain r2 st2 where c: "communicate oc pid st1 = (r2, st2)"
        by (cases "communicate oc pid st1")
      from Pair Inr c assms e t after_exit_for show ?thesis
        by (auto simp: run_test_case_def Let_def oc_def [symmetric] sample_peak_rss_def
            split: sum.splits py_error.splits)
    qed
  qed
qed

lemma run_cases_returns:
  assumes "language_configs language = Some config"
  shows "\<exists>rs st'. run_cases env text file_path language base_name mode i tcs acc st
             = (Inr (acc @ rs), st')
           \<and> length rs = length tcs
           \<and> (\<forall>k < length tcs. result_for (tcs ! k) (i + k) (rs ! k))"
proof (induction tcs arbitrary: i acc st)
  case Nil
  show ?case by simp
next
  case (Cons tc tcs)
  from run_test_case_returns [OF assms]
  obtain r st1 where r: "run_test_case env text file_path language base_name tc i mode st = (Inr r, st1)"
    and rf: "result_for tc i r" by blast
  from Cons.IH [of "Suc i" "acc @ [r]" st1]
  obtain rs st' where rs:
    "run_cases env text file_path language base_name mode (Suc i) tcs (acc @ [r]) st1
       = (Inr ((acc @ [r]) @ rs), st')"
    "length rs = length tcs"
    "\<forall>k < length tcs. result_for (tcs ! k) (Suc i + k) (rs ! k)" by blast
  have "\<forall>k < length (tc # tcs). result_for ((tc # tcs) ! k) (i + k) ((r # rs) ! k)"
  proof (intro allI impI)
    fix k assume "k < length (tc # tcs)"
    then show "result_for ((tc # tcs) ! k) (i + k) ((r # rs) ! k)"
      using rf rs(3) by (cases k) auto
  qed
  with r rs(1,2) show ?case
    by (intro exI [of _ "r # rs"] exI [of _ st']) simp
qed

lemma check_runtime_python:
  "check_runtime env ''python'' =
     (if which env ''python'' then Inr (True, [])
      else Inr (False, ''Required runtime '' @ quote ''python'' @ '' is not installed on server.''))"
  by (simp add: check_runtime_def language_configs_def strip_def lstrip_def rstrip_def isspace_def)

lemma check_runtime_javascript:
  "check_runtime env ''javascript'' =
     (if which env ''node'' then Inr (True, [])
      else Inr (False, ''Required runtime '' @ quote ''node'' @ '' is not installed on server.''))"
  by (simp add: check_runtime_def language_configs_def strip_def lstrip_def rstrip_def isspace_def)

lemma check_runtime_java:
  "check_runtime env ''java'' =
     (if \<not> which env ''java''
      then Inr (False, ''Required runtime '' @ quote ''java'' @ '' is not installed on server.'')
      else if \<not> which env ''javac''
      then Inr (False, ''Required runtime '' @ quote ''javac'' @ '' is not installed on server.'')
      else Inr (True, []))"
  by (simp add: check_runtime_def language_configs_def strip_def lstrip_def rstrip_def isspace_def)

lemma check_runtime_cpp:
  "check_runtime env ''cpp'' =
     (if which env ''g++'' then Inr (True, [])
      else Inr (False, ''Required runtime '' @ quote ''g++'' @ '' is not installed on server.''))"
  by (simp add: check_runtime_def language_configs_def strip_def lstrip_def rstrip_def isspace_def)

lemma check_runtime_c:
  "check_runtime env ''c'' =
     (if which env ''gcc'' then Inr (True, [])
      else Inr (False, ''Required runtime '' @ quote ''gcc'' @ '' is not installed on server.''))"
  by (simp add: check_runtime_def language_configs_def strip_def lstrip_def rstrip_def isspace_def)

lemma check_runtime_returns:
  assumes "language_configs language \<noteq> None"
  shows "\<exists>ok msg. check_runtime env language = Inr (ok, msg)"
proof -
  from assms have "language \<in> {''python'', ''java'', ''cpp'', ''c'', ''javascript''}"
    by (simp only: language_configs_dom)
  then show ?thesis
    by (auto simp: check_runtime_python check_runtime_javascript check_runtime_java
        check_runtime_cpp check_runtime_c)
qed

lemma prepare_code_file_returns:
  "language_configs language = Some config \<Longrightarrow>
   \<exists>text mc. prepare_code_file env code language
      = Inr (tmp_base env @ file_ext config, tmp_base env, mc, text)"
  by (auto simp: prepare_code_file_def language_configs_def)

lemma needs_compile_iff:
  "needs_compile language \<longleftrightarrow> language \<in> {''java'', ''cpp'', ''c''}"
  by (auto simp: needs_compile_def language_configs_def split: if_splits)

lemma needs_compile_cmd:
  "needs_compile language \<Longrightarrow>
   \<exists>config c cs. language_configs language = Some config \<and> compile_cmd config = Some (c # cs)"
  by (auto simp: needs_compile_def neq_Nil_conv split: option.splits)

lemma run_all_returns:
  assumes "language_configs language = Some config"
  shows "\<exists>out st'. run_all env text file_path language base_name mode tcs peak st = (Inr out, st')
           \<and> success out \<and> length (results out) = length tcs
           \<and> (\<forall>k < length tcs. result_for (tcs ! k) k (results out ! k))"
proof -
  from run_cases_returns [OF assms, of env "text" file_path base_name mode 0 tcs "[]" st]
  obtain rs st' where
    "run_cases env text file_path language base_name mode 0 tcs [] st = (Inr rs, st')"
    "length rs = length tcs" "\<forall>k < length tcs. result_for (tcs ! k) k (rs ! k)"
    by auto
  then show ?thesis by (simp add: run_all_def Let_def)
qed

lemma run_code_missing:
  assumes "check_runtime env language = Inr (False, msg)"
  shows "run_code env code language tcs mode st =
     (Inr \<lparr>success = False,
           results = map (\<lambda>(i, tc). missing_runtime_result msg i tc) (enumerate 0 tcs),
           overall_status = Overall_failed, compile_memory_usage = None\<rparr>, st)"
  using assms by (simp add: run_code_def)

lemma run_code_compile_fails:
  assumes "check_runtime env language = Inr (True, msg)" and "needs_compile language"
  shows "\<exists>err st'. run_code env code language tcs mode st =
     (Inr \<lparr>success = False, results = [compile_error_result err (IntObj 0)],
           overall_status = Overall_failed, compile_memory_usage = Some (IntObj 0)\<rparr>, st')
     \<and> compilation_fails env code language st"
proof -
  from needs_compile_cmd [OF assms(2)] obtain config c cs where
    cfg: "language_configs language = Some config" "compile_cmd config = Some (c # cs)" by blast
  from prepare_code_file_returns [OF cfg(1)] obtain src mc where
    p: "prepare_code_file env code language
          = Inr (tmp_base env @ file_ext config, tmp_base env, mc, src)" by blast
  from compile_code_fails [OF cfg] obtain err st' where
    c: "compile_code env src (tmp_base env @ file_ext config) language (tmp_base env) st
          = (Inr (False, err, IntObj 0), st')" by blast
  from assms p c show ?thesis
    by (auto simp: run_code_def compilation_fails_def)
qed

lemma run_code_interpreted:
  assumes "check_runtime env language = Inr (True, msg)" and "\<not> needs_compile language"
    and "language_configs language = Some config"
  shows "\<exists>out st'. run_code env code language tcs mode st = (Inr out, st')
           \<and> success out \<and> length (results out) = length tcs
           \<and> (\<forall>k < length tcs. result_for (tcs ! k) k (results out ! k))
           \<and> \<not> compilation_fails env code language st"
proof -
  from prepare_code_file_returns [OF assms(3)] obtain src mc where
    p: "prepare_code_file env code language
          = Inr (tmp_base env @ file_ext config, tmp_base env, mc, src)" by blast
  from run_all_returns [OF assms(3)] p assms(1,2) show ?thesis
    by (simp add: run_code_def compilation_fails_def)
qed

lemma missing_results:
  "length (map (\<lambda>(i, tc). missing_runtime_result msg i tc) (enumerate 0 tcs)) = length tcs"
  "k < length tcs \<Longrightarrow>
   result_for (tcs ! k) k (map (\<lambda>(i, tc). missing_runtime_result msg i tc) (enumerate 0 tcs) ! k)"
  "r \<in> set (map (\<lambda>(i, tc). missing_runtime_result msg i tc) (enumerate 0 tcs)) \<Longrightarrow>
   status r = ERROR \<and> error r = Some msg \<and> \<not> passed r"
  by (auto simp: missing_runtime_result_def result_for_def nth_enumerate_eq)


text \<open>
  C7. For every supported language \<^const>\<open>run_code\<close> returns, and every result it
  returns, on whichever path it was made, has \<^verbatim>\<open>passed\<close> false when its status is
  \<^verbatim>\<open>TIMEOUT\<close> or \<^verbatim>\<open>ERROR\<close>.
\<close>

theorem run_code_failed_status_not_passed:
  assumes "language_configs language \<noteq> None"
  shows "\<exists>out st'. run_code env code language tcs mode st = (Inr out, st')
    \<and> (\<forall>r\<in>set (results out). status r = TIMEOUT \<or> status r = ERROR \<longrightarrow> \<not> passed r)"
proof -
  from assms obtain config where cfg: "language_configs language = Some config" by auto
  from check_runtime_returns [OF assms] obtain ok msg where
    cr: "check_runtime env language = Inr (ok, msg)" by blast
  show ?thesis
  proof (cases ok)
    case False
    with cr run_code_missing [of env language msg code tcs mode st] missing_results(3) [where msg = msg and tcs = tcs]
    show ?thesis by (auto simp del: set_map)
  next
    case True
    with cr have cr': "check_runtime env language = Inr (True, msg)" by simp
    show ?thesis
    proof (cases "needs_compile language")
      case nc: True
      from run_code_compile_fails [OF cr' nc, where code = code and tcs = tcs and mode = mode and st = st]
      show ?thesis by (auto simp: compile_error_result_def)
    next
      case nc: False
      from run_code_interpreted [OF cr' nc cfg, where code = code and tcs = tcs and mode = mode and st = st]
      obtain out st' where o:
        "run_code env code language tcs mode st = (Inr out, st')"
        "length (results out) = length tcs"
        "\<forall>k < length tcs. result_for (tcs ! k) k (results out ! k)" by blast
      have "\<forall>r\<in>set (results out). status r = TIMEOUT \<or> status r = ERROR \<longrightarrow> \<not> passed r"
      proof
        fix r assume "r \<in> set (results out)"
        then obtain k where "k < length (results out)" "results out ! k = r"
          by (auto simp: in_set_conv_nth)
        with o(2,3) have "result_for (tcs ! k) k r" by auto
        then show "status r = TIMEOUT \<or> status r = ERROR \<longrightarrow> \<not> passed r"
          by (auto simp: result_for_def)
      qed
      with o(1) show ?thesis by blast
    qed
  qed
qed

theorem run_code_failed_status_not_passed_witness:
  "\<exists>out st'. run_code env_hanging ''while True: pass'' ''python''
       [\<lparr>input = [], expected_output = ''hi''\<rparr>] ''hard'' \<lparr>live = [], next_pid = 100\<rparr> = (Inr out, st')
     \<and> list_all (\<lambda>r. status r = SUCCESS \<or> \<not> passed r) (results out)"
proof -
  have h: "language_configs ''python'' \<noteq> None"
    by (simp add: language_configs_def)
  from run_code_failed_status_not_passed [OF h, of env_hanging "''while True: pass''"
      "[\<lparr>input = [], expected_output = ''hi''\<rparr>]" "''hard''" "\<lparr>live = [], next_pid = 100\<rparr>"]
  obtain out st' where
    "run_code env_hanging ''while True: pass'' ''python''
       [\<lparr>input = [], expected_output = ''hi''\<rparr>] ''hard'' \<lparr>live = [], next_pid = 100\<rparr> = (Inr out, st')"
    "\<forall>r\<in>set (results out). status r = TIMEOUT \<or> status r = ERROR \<longrightarrow> \<not> passed r"
    by blast
  moreover have "status r = SUCCESS \<or> status r = TIMEOUT \<or> status r = ERROR" for r :: runner_result
    by (cases "status r") auto
  ultimately show ?thesis
    by (intro exI [of _ out] exI [of _ st']) (auto simp: list_all_iff)
qed

lemma runtime_missing_examples:
  "\<not> runtime_missing env_all_exit ''python''"
  "\<not> runtime_missing env_all_exit ''c''"
  "runtime_missing env_without_gcc ''c''"
  by (simp_all add: runtime_missing_def check_runtime_python check_runtime_c env_all_exit_def
      env_without_gcc_def)


lemma compile_code_attribute_error:
  assumes "language_configs language = Some config"
    and "compile_cmd config = Some (c # cs)"
    and "\<And>e. proc env (next_pid st) src (format_cmd config file_path base_name (c # cs)) None
           \<noteq> SpawnError e"
  shows "fst (compile_code env src file_path language base_name st)
           = Inr (False, quote ''Thread'' @ '' object has no attribute '' @ quote ''set'', IntObj 0)"
proof -
  define oc where
    "oc = proc env (next_pid st) src (format_cmd config file_path base_name (c # cs)) None"
  from assms(3) have "\<And>e. oc \<noteq> SpawnError e" by (simp add: oc_def)
  then obtain pid st1 where p: "popen oc st = (Inr pid, st1)"
    by (cases oc) (auto simp: popen_def)
  obtain r2 st2 where cm: "communicate oc pid st1 = (r2, st2)"
    by (cases "communicate oc pid st1")
  from p cm assms(1,2) show ?thesis
    by (simp add: compile_code_def Let_def oc_def [symmetric] sample_peak_rss_def
        compile_handler_def no_attribute_def)
qed

text \<open>
  C3, as amended. For \<^verbatim>\<open>c\<close>, \<^verbatim>\<open>cpp\<close> and \<^verbatim>\<open>java\<close> and every source text,
  \<^const>\<open>compile_code\<close> returns with success false (\<open>compile_code_attribute_error\<close> above:
  once the compiler is spawned, because \<^verbatim>\<open>.set()\<close> is called on the thread). And
  whenever the check of the binaries passes, \<^const>\<open>run_code\<close> returns the one synthetic
  compilation error result, whatever the test cases and whether or not the code compiles.
\<close>

theorem compile_code_never_succeeds:
  assumes "language \<in> {''c'', ''cpp'', ''java''}"
  shows "(\<exists>err st'. compile_code env src file_path language base_name st
            = (Inr (False, err, IntObj 0), st'))
    \<and> (\<not> runtime_missing env language \<longrightarrow>
         (\<exists>err st'. run_code env code language tcs mode st =
            (Inr \<lparr>success = False, results = [compile_error_result err (IntObj 0)],
                  overall_status = Overall_failed, compile_memory_usage = Some (IntObj 0)\<rparr>, st')))"
proof -
  from assms have nc: "needs_compile language" by (auto simp: needs_compile_iff)
  from needs_compile_cmd [OF nc] obtain config c cs where
    cfg: "language_configs language = Some config" "compile_cmd config = Some (c # cs)" by blast
  have first: "\<exists>err st'. compile_code env src file_path language base_name st
            = (Inr (False, err, IntObj 0), st')"
    by (rule compile_code_fails [OF cfg])
  have second: "\<exists>err st'. run_code env code language tcs mode st =
            (Inr \<lparr>success = False, results = [compile_error_result err (IntObj 0)],
                  overall_status = Overall_failed, compile_memory_usage = Some (IntObj 0)\<rparr>, st')"
    if nm: "\<not> runtime_missing env language"
  proof -
    from cfg(1) have "language_configs language \<noteq> None" by simp
    from check_runtime_returns [OF this] obtain ok msg where
      cr: "check_runtime env language = Inr (ok, msg)" by blast
    with nm have "check_runtime env language = Inr (True, msg)"
      by (simp add: runtime_missing_def)
    from run_code_compile_fails [OF this nc] show ?thesis by blast
  qed
  from first second show ?thesis by blast
qed

theorem compile_code_never_succeeds_witness:
  "(\<exists>err st'. compile_code env_all_exit ''int main(){}'' ''/tmp/tmpabc.c'' ''c'' ''/tmp/tmpabc''
        \<lparr>live = [], next_pid = 100\<rparr> = (Inr (False, err, IntObj 0), st'))
   \<and> (\<exists>err st'. run_code env_all_exit ''int main(){}'' ''c''
        [\<lparr>input = [], expected_output = ''hi''\<rparr>, \<lparr>input = ''1'', expected_output = ''2''\<rparr>]
        ''hard'' \<lparr>live = [], next_pid = 100\<rparr> =
          (Inr \<lparr>success = False, results = [compile_error_result err (IntObj 0)],
                overall_status = Overall_failed, compile_memory_usage = Some (IntObj 0)\<rparr>, st'))"
proof -
  have h: "''c'' \<in> {''c'', ''cpp'', ''java''}" by simp
  show ?thesis
    using compile_code_never_succeeds [OF h, of env_all_exit "''int main(){}''" "''/tmp/tmpabc.c''"
        "''/tmp/tmpabc''" "\<lparr>live = [], next_pid = 100\<rparr>" "''int main(){}''"
        "[\<lparr>input = [], expected_output = ''hi''\<rparr>, \<lparr>input = ''1'', expected_output = ''2''\<rparr>]"
        "''hard''"]
      runtime_missing_examples(2)
    by blast
qed

text \<open>
  C3 as stated fails where the compiler is not installed: for \<^verbatim>\<open>c\<close> without \<^verbatim>\<open>gcc\<close> and
  two test cases, \<^const>\<open>run_code\<close> returns two missing-runtime results and never reaches
  the compilation.
\<close>

theorem run_code_missing_compiler_counterexample:
  "fst (run_code env_without_gcc ''int main(){}'' ''c''
        [\<lparr>input = [], expected_output = ''hi''\<rparr>, \<lparr>input = ''1'', expected_output = ''2''\<rparr>]
        ''hard'' \<lparr>live = [], next_pid = 100\<rparr>)
   = Inr \<lparr>success = False,
          results =
            [missing_runtime_result
               (''Required runtime '' @ quote ''gcc'' @ '' is not installed on server.'') 0
               \<lparr>input = [], expected_output = ''hi''\<rparr>,
             missing_runtime_result
               (''Required runtime '' @ quote ''gcc'' @ '' is not installed on server.'') 1
               \<lparr>input = ''1'', expected_output = ''2''\<rparr>],
          overall_status = Overall_failed, compile_memory_usage = None\<rparr>"
proof -
  have "check_runtime env_without_gcc ''c''
      = Inr (False, ''Required runtime '' @ quote ''gcc'' @ '' is not installed on server.'')"
    by (simp add: check_runtime_c env_without_gcc_def)
  then show ?thesis
    by (simp add: run_code_missing enumerate_eq_zip)
qed

lemma run_test_case_hung:
  assumes "language_configs language = Some config"
    and "proc env (next_pid st) src (format_cmd config file_path base_name (run_cmd config))
           (Some (input tc)) = Hung k p"
  shows "run_test_case env src file_path language base_name tc i mode st
     = (Inr (timeout_result tc i),
        st\<lparr>live := [Suc (next_pid st) ..< Suc (next_pid st) + k] @ next_pid st # live st,
           next_pid := Suc (next_pid st) + k\<rparr>)"
  using assms
  by (simp add: run_test_case_def Let_def popen_def communicate_def sample_peak_rss_def)

text \<open>
  C1. A Python test case whose process never exits and has two descendants: the result
  is the one the specification describes (status \<^verbatim>\<open>TIMEOUT\<close>, not passed, 5000 milliseconds, no
  memory), but the process (100) and its descendants (101, 102) are still running when
  \<^verbatim>\<open>_run_test_case\<close> has returned: nothing in it terminates them.
\<close>

theorem run_test_case_timeout_keeps_process:
  "run_test_case env_hanging ''while True: pass'' ''/tmp/tmpabc.py'' ''python'' ''/tmp/tmpabc''
     \<lparr>input = [], expected_output = []\<rparr> 0 ''hard'' \<lparr>live = [], next_pid = 100\<rparr>
   = (Inr \<lparr>test_case_index = 0, status = TIMEOUT, result_output = [],
            error = Some ''Execution timed out'', execution_time = 5000,
            memory_usage = IntObj 0, passed = False, result_input = [],
            result_expected_output = []\<rparr>,
      \<lparr>live = [101, 102, 100], next_pid = 103\<rparr>)"
proof -
  have cfg: "language_configs ''python'' = Some \<lparr>file_ext = ''.py'', compile_cmd = None,
          run_cmd = [''python'', ''{file}''], main_class = None\<rparr>"
    by (simp add: language_configs_def)
  have upt: "[101 ..< 103] = [101, 102 :: nat]"
    by (simp add: upt_rec)
  show ?thesis
    by (simp add: run_test_case_hung [OF cfg, where k = 2 and p = 0] env_hanging_def
        env_all_exit_def timeout_result_def TIMEOUT_SECONDS_def upt)
qed

section \<open>Properties of the score aggregator\<close>





















text \<open>
  C8. The status \<^const>\<open>all_status\<close> is success exactly when every required condition
  passed, and fail exactly when some required condition did not; conditions that are not
  required do not count; without conditions it is success; and neither the percentage,
  the maximum, the feedback nor the score fields of the conditions change it.
\<close>

theorem all_status_required_only:
  "(all_status (generate_for_problem_type pct fb g mp (Some conds)) = ''success''
      \<longleftrightarrow> (\<forall>it\<in>set conds. required_of it \<longrightarrow> passed_of it))
   \<and> (all_status (generate_for_problem_type pct fb g mp (Some conds)) = ''fail''
      \<longleftrightarrow> (\<exists>it\<in>set conds. required_of it \<and> \<not> passed_of it))
   \<and> all_status (generate_for_problem_type pct fb g mp (Some [])) = ''success''
   \<and> all_status (generate_for_problem_type pct fb g mp None) = ''success''
   \<and> all_status (generate_for_problem_type pct' fb' g' mp' (Some (map (\<lambda>it. it\<lparr>item_score := sc it\<rparr>) conds)))
       = all_status (generate_for_problem_type pct fb g mp (Some conds))"
  by (auto simp: generate_for_problem_type_def Let_def list_all_iff required_of_def passed_of_def)

theorem all_status_required_only_witness:
  "passed_of \<lparr>item_is_required = Some True, item_passed = Some True, item_weight = None, item_score = None\<rparr>
   \<and> \<not> required_of \<lparr>item_is_required = Some False, item_passed = Some False, item_weight = None, item_score = None\<rparr>
   \<and> all_status (generate_for_problem_type 0 [] [] 10
        (Some [\<lparr>item_is_required = Some True, item_passed = Some True, item_weight = None, item_score = None\<rparr>,
               \<lparr>item_is_required = Some False, item_passed = Some False, item_weight = None, item_score = None\<rparr>]))
       = ''success''
   \<and> required_of \<lparr>item_is_required = None, item_passed = Some False, item_weight = None, item_score = None\<rparr>
   \<and> \<not> passed_of \<lparr>item_is_required = None, item_passed = Some False, item_weight = None, item_score = None\<rparr>
   \<and> all_status (generate_for_problem_type 100 [] [] 10
        (Some [\<lparr>item_is_required = None, item_passed = Some False, item_weight = None, item_score = None\<rparr>]))
       = ''fail''"
  using all_status_required_only
    [of 0 "[]" "[]" 10
        "[\<lparr>item_is_required = Some True, item_passed = Some True, item_weight = None, item_score = None\<rparr>,
          \<lparr>item_is_required = Some False, item_passed = Some False, item_weight = None, item_score = None\<rparr>]"]
    all_status_required_only
    [of 100 "[]" "[]" 10
        "[\<lparr>item_is_required = None, item_passed = Some False, item_weight = None, item_score = None\<rparr>]"]
  by (simp add: required_of_def passed_of_def)

text \<open>
  C2. The scenario of the specification: three items, the second one failed, weights
  1, 1 and 2, forty points. The allocations are 10, 10 and 20 as specified, but the
  correction step computes its gap from the earned sum, so the ten points of the failed
  item move onto the first passing item: the scores are 20, 0 and 20 and the earned total
  is 40, where the specification has 10, 0, 20 and 30.
\<close>

theorem distribute_scenario_moves_failed_allocation:
  "allocations
     [\<lparr>item_is_required = Some True, item_passed = Some True, item_weight = Some 1, item_score = None\<rparr>,
      \<lparr>item_is_required = Some True, item_passed = Some False, item_weight = Some 1, item_score = None\<rparr>,
      \<lparr>item_is_required = Some True, item_passed = Some True, item_weight = Some 2, item_score = None\<rparr>]
     40 = [10, 10, 20]
   \<and> map get_score (fst (distribute_condition_scores
     [\<lparr>item_is_required = Some True, item_passed = Some True, item_weight = Some 1, item_score = None\<rparr>,
      \<lparr>item_is_required = Some True, item_passed = Some False, item_weight = Some 1, item_score = None\<rparr>,
      \<lparr>item_is_required = Some True, item_passed = Some True, item_weight = Some 2, item_score = None\<rparr>]
     40)) = [20, 0, 20]
   \<and> snd (distribute_condition_scores
     [\<lparr>item_is_required = Some True, item_passed = Some True, item_weight = Some 1, item_score = None\<rparr>,
      \<lparr>item_is_required = Some True, item_passed = Some False, item_weight = Some 1, item_score = None\<rparr>,
      \<lparr>item_is_required = Some True, item_passed = Some True, item_weight = Some 2, item_score = None\<rparr>]
     40) = 40"
  by code_simp

end
